theory Spec2Isabelle
  imports Complex_Main "HOL-Library.Char_ord" "HOL-Library.AList"
begin

section \<open>JavaScript values\<close>

text \<open>
  The bridge (\<^verbatim>\<open>src/index.js\<close>) handles loosely typed JSON. A JavaScript number is a
  double: the model keeps \<open>NaN\<close>, the two infinities and the finite values (as rationals;
  \<open>-0\<close> is identified with \<open>0\<close>, which no operation of the bridge tells apart). The
  bridge never computes with numbers, it only coerces and copies them.

  \<open>Infinite True\<close> is the negative infinity.

  An object is the list of its own properties in enumeration order; an absent property
  (\<^verbatim>\<open>undefined\<close>) is \<open>None\<close>. A string is the list of its code units, a \<open>char\<close>
  standing for a code unit below 256.
\<close>

datatype jsnum = NaN | Infinite bool | Fin rat

datatype json =
    JNull
  | JBool bool
  | JNum jsnum
  | JStr string
  | JArr "json list"
  | JObj "(string \<times> json) list"

text \<open>The only exception the bridge's own code can raise outside a \<^verbatim>\<open>try\<close>.\<close>

datatype exn = TypeError

text \<open>
  Built-ins of the JavaScript runtime that are not code of the repository are parameters
  of the model: \<^verbatim>\<open>JSON.parse\<close> (\<open>None\<close> when it throws a SyntaxError), the conversion of
  a number to a string and the conversion of a string to a number.
\<close>

record js_runtime =
  JSON_parse :: "string \<Rightarrow> json option"
  Number_toString :: "jsnum \<Rightarrow> string"
  StringToNumber :: "string \<Rightarrow> jsnum"

fun truthy :: "json \<Rightarrow> bool" where
  "truthy JNull = False"
| "truthy (JBool b) = b"
| "truthy (JNum n) = (n \<noteq> NaN \<and> n \<noteq> Fin 0)"
| "truthy (JStr s) = (s \<noteq> [])"
| "truthy (JArr xs) = True"
| "truthy (JObj kvs) = True"

definition truthy_opt :: "json option \<Rightarrow> bool" where
  "truthy_opt v = (case v of None \<Rightarrow> False | Some x \<Rightarrow> truthy x)"

text \<open>\<^verbatim>\<open>typeof v === 'object'\<close>: true of \<^verbatim>\<open>null\<close>, of arrays and of objects.\<close>

fun typeof_object :: "json \<Rightarrow> bool" where
  "typeof_object JNull = True"
| "typeof_object (JArr xs) = True"
| "typeof_object (JObj kvs) = True"
| "typeof_object v = False"

definition typeof_object_opt :: "json option \<Rightarrow> bool" where
  "typeof_object_opt v = (case v of None \<Rightarrow> False | Some x \<Rightarrow> typeof_object x)"

fun isArray :: "json option \<Rightarrow> bool" where
  "isArray (Some (JArr xs)) = True"
| "isArray v = False"

text \<open>
  \<^verbatim>\<open>v.k\<close> for a receiver that is not \<^verbatim>\<open>null\<close>: only an object has one of the property
  names the bridge reads (\<open>id\<close>, \<open>method\<close>, \<open>result\<close>, \<open>error\<close>, \<open>tools\<close>, \<open>name\<close>, \<dots>).
  \<open>get_prop\<close> is the read on an unguarded receiver: it raises on \<^verbatim>\<open>null\<close>.
\<close>

fun get :: "json \<Rightarrow> string \<Rightarrow> json option" where
  "get (JObj kvs) k = map_of kvs k"
| "get v k = None"

definition get_prop :: "json \<Rightarrow> string \<Rightarrow> exn + json option" where
  "get_prop v k = (if v = JNull then Inl TypeError else Inr (get v k))"

text \<open>\<^verbatim>\<open>k in v\<close>, for \<open>v\<close> an array or an object.\<close>

fun has_key :: "json \<Rightarrow> string \<Rightarrow> bool" where
  "has_key (JObj kvs) k = (k \<in> set (map fst kvs))"
| "has_key v k = False"

text \<open>\<^verbatim>\<open>obj.k = v\<close>: the property keeps its place, a new one goes last.\<close>

fun set_prop :: "json \<Rightarrow> string \<Rightarrow> json \<Rightarrow> json" where
  "set_prop (JObj kvs) k v = JObj (AList.update k v kvs)"
| "set_prop w k v = w"

text \<open>\<^verbatim>\<open>a ?? b\<close>, with \<open>b\<close> optional (\<open>qq\<close>) and with \<open>b\<close> defined (\<open>or_else\<close>).\<close>

definition qq :: "json option \<Rightarrow> json option \<Rightarrow> json option" where
  "qq a b = (case a of None \<Rightarrow> b | Some JNull \<Rightarrow> b | Some v \<Rightarrow> Some v)"

definition or_else :: "json option \<Rightarrow> json \<Rightarrow> json" where
  "or_else a b = (case a of None \<Rightarrow> b | Some JNull \<Rightarrow> b | Some v \<Rightarrow> v)"

text \<open>Decimal digits of an array index or an HTTP status.\<close>

function dec :: "nat \<Rightarrow> string" where
  "dec n = (if n < 10 then [''0123456789'' ! n]
            else dec (n div 10) @ [''0123456789'' ! (n mod 10)])"
  by pat_completeness auto
termination
  by (relation "measure id") auto

text \<open>
  \<^verbatim>\<open>String(v)\<close>. An object with an own property \<open>toString\<close> (never callable in decoded
  JSON) cannot be converted: TypeError. An array joins its elements with commas,
  \<^verbatim>\<open>null\<close> elements as the empty string.
\<close>

fun js_String :: "js_runtime \<Rightarrow> json \<Rightarrow> exn + string"
  and join_elems :: "js_runtime \<Rightarrow> json list \<Rightarrow> exn + string" where
  "js_String rt JNull = Inr ''null''"
| "js_String rt (JBool b) = Inr (if b then ''true'' else ''false'')"
| "js_String rt (JNum n) = Inr (Number_toString rt n)"
| "js_String rt (JStr s) = Inr s"
| "js_String rt (JArr xs) = join_elems rt xs"
| "js_String rt (JObj kvs) =
     (if ''toString'' \<in> set (map fst kvs) then Inl TypeError else Inr ''[object Object]'')"
| "join_elems rt [] = Inr ''''"
| "join_elems rt (x # xs) =
     (case (if x = JNull then Inr '''' else js_String rt x) of
        Inl e \<Rightarrow> Inl e
      | Inr s \<Rightarrow>
          (if xs = [] then Inr s
           else (case join_elems rt xs of Inl e \<Rightarrow> Inl e | Inr r \<Rightarrow> Inr (s @ '','' @ r))))"

text \<open>\<^verbatim>\<open>Number(v)\<close>: objects and arrays go through their string.\<close>

fun js_Number :: "js_runtime \<Rightarrow> json \<Rightarrow> exn + jsnum" where
  "js_Number rt JNull = Inr (Fin 0)"
| "js_Number rt (JBool b) = Inr (Fin (if b then 1 else 0))"
| "js_Number rt (JNum n) = Inr n"
| "js_Number rt (JStr s) = Inr (StringToNumber rt s)"
| "js_Number rt v =
     (case js_String rt v of Inl e \<Rightarrow> Inl e | Inr s \<Rightarrow> Inr (StringToNumber rt s))"

section \<open>Tool-name sanitizer\<close>

text \<open>The character class \<^verbatim>\<open>[a-zA-Z0-9_-]\<close>.\<close>

definition name_char :: "char \<Rightarrow> bool" where
  "name_char c \<longleftrightarrow>
     (CHR ''a'' \<le> c \<and> c \<le> CHR ''z'') \<or> (CHR ''A'' \<le> c \<and> c \<le> CHR ''Z'') \<or>
     (CHR ''0'' \<le> c \<and> c \<le> CHR ''9'') \<or> c = CHR ''_'' \<or> c = CHR ''-''"

text \<open>
  \<^verbatim>\<open>sanitizeToolName(name, fallbackBase)\<close>; both callers pass \<open>fallbackBase\<close>, so its
  default \<^verbatim>\<open>'tool'\<close> is never used.
\<close>

definition sanitizeToolName :: "js_runtime \<Rightarrow> json option \<Rightarrow> string \<Rightarrow> exn + string" where
  "sanitizeToolName rt name fallbackBase =
     (case js_String rt (or_else name (JStr '''')) of
        Inl e \<Rightarrow> Inl e
      | Inr s \<Rightarrow>
          (let cleaned = take 64 (map (\<lambda>c. if name_char c then c else CHR ''_'') s)
           in Inr (if cleaned = [] then fallbackBase else cleaned)))"

text \<open>\<^verbatim>\<open>{ ...t }\<close>: the own properties of an object; an array spreads its indices.\<close>

fun spread :: "json \<Rightarrow> (string \<times> json) list" where
  "spread (JObj kvs) = kvs"
| "spread (JArr xs) = zip (map dec [0..<length xs]) xs"
| "spread v = []"

text \<open>The callback of \<^verbatim>\<open>result.tools.map((t, i) => ...)\<close>.\<close>

definition repair_tool :: "js_runtime \<Rightarrow> nat \<Rightarrow> json \<Rightarrow> exn + json" where
  "repair_tool rt i t =
     (if \<not> truthy t \<or> \<not> typeof_object t then Inr t
      else
        (case sanitizeToolName rt
                (Some (or_else (get t ''name'') (JStr (''tool_'' @ dec (i + 1)))))
                (''tool_'' @ dec (i + 1)) of
           Inl e \<Rightarrow> Inl e
         | Inr name \<Rightarrow> Inr (JObj (AList.update ''name'' (JStr name) (spread t)))))"

fun map_tools :: "js_runtime \<Rightarrow> nat \<Rightarrow> json list \<Rightarrow> exn + json list" where
  "map_tools rt i [] = Inr []"
| "map_tools rt i (t # ts) =
     (case repair_tool rt i t of
        Inl e \<Rightarrow> Inl e
      | Inr t' \<Rightarrow>
          (case map_tools rt (i + 1) ts of Inl e \<Rightarrow> Inl e | Inr ts' \<Rightarrow> Inr (t' # ts')))"

definition repairToolsInInitializeResult :: "js_runtime \<Rightarrow> json \<Rightarrow> exn + json" where
  "repairToolsInInitializeResult rt result =
     (if \<not> truthy result \<or> \<not> isArray (get result ''tools'') then Inr result
      else
        (case get result ''tools'' of
           Some (JArr ts) \<Rightarrow>
             (case map_tools rt 0 ts of
                Inl e \<Rightarrow> Inl e
              | Inr tools \<Rightarrow> Inr (JObj (AList.update ''tools'' (JArr tools) (spread result))))
         | _ \<Rightarrow> Inr result))"

section \<open>Frames on the outbound transport\<close>

text \<open>
  \<^verbatim>\<open>JSON.stringify(v)\<close>, as the value its text denotes: \<open>NaN\<close> and the infinities are
  written \<^verbatim>\<open>null\<close>, everything else as it is (no value here is \<^verbatim>\<open>undefined\<close>, and decoded
  JSON has no callable \<^verbatim>\<open>toJSON\<close>).
\<close>

fun wire :: "json \<Rightarrow> json" where
  "wire (JNum n) = (case n of Fin r \<Rightarrow> JNum (Fin r) | _ \<Rightarrow> JNull)"
| "wire (JArr xs) = JArr (map wire xs)"
| "wire (JObj kvs) = JObj (map (\<lambda>kv. (fst kv, wire (snd kv))) kvs)"
| "wire v = v"

text \<open>
  What one call of \<^verbatim>\<open>handleMessage\<close> does to the outside, in order: a line written to
  standard output, a diagnostic on standard error, a POST of a request body to the remote.
  The line and the body are kept as the values their texts denote.
\<close>

datatype effect = Stdout json | Stderr string | Post json

definition sendResponse :: "json \<Rightarrow> effect" where
  "sendResponse obj =
     (let out0 = [(''jsonrpc'', JStr ''2.0'')];
          out1 = (if truthy obj \<and> typeof_object obj then
                    (let a = (case get obj ''id'' of
                                Some v \<Rightarrow> AList.update ''id'' v out0 | None \<Rightarrow> out0);
                         b = (case get obj ''result'' of
                                Some v \<Rightarrow> AList.update ''result'' v a | None \<Rightarrow> a)
                     in (case get obj ''error'' of
                           Some v \<Rightarrow> AList.update ''error'' v b | None \<Rightarrow> b))
                  else out0);
          out2 = (if map_of out1 ''result'' = None \<and> map_of out1 ''error'' = None then
                    AList.update ''error''
                      (JObj [(''code'', JNum (Fin (- 32603))),
                             (''message'', JStr ''Internal error: empty response'')]) out1
                  else out1);
          out3 = (if map_of out2 ''id'' = None then AList.update ''id'' JNull out2 else out2)
      in Stdout (wire (JObj out3)))"

text \<open>
  \<^verbatim>\<open>sendNotification(method, params)\<close>: both callers pass a string as \<open>method\<close>, of which
  \<^verbatim>\<open>String(method || '')\<close> is the string itself.
\<close>

definition sendNotification :: "string \<Rightarrow> json option \<Rightarrow> effect" where
  "sendNotification method params =
     Stdout (wire (JObj [(''jsonrpc'', JStr ''2.0''),
                         (''method'', JStr (if method \<noteq> [] then method else [])),
                         (''params'', or_else params (JObj []))]))"

definition makeError :: "json option \<Rightarrow> int \<Rightarrow> string \<Rightarrow> json option \<Rightarrow> json" where
  "makeError rid code message data =
     (let err = [(''code'', JNum (Fin (of_int code))), (''message'', JStr message)];
          err' = (case data of None \<Rightarrow> err | Some d \<Rightarrow> AList.update ''data'' d err)
      in JObj [(''jsonrpc'', JStr ''2.0''), (''id'', or_else rid JNull), (''error'', JObj err')])"

section \<open>Body decoder\<close>

text \<open>White space as \<^verbatim>\<open>trim\<close> and the regular expression class \<^verbatim>\<open>\s\<close> see it.\<close>

definition js_space :: "char \<Rightarrow> bool" where
  "js_space c \<longleftrightarrow> c \<in> set [CHR 0x09, CHR 0x0A, CHR 0x0B, CHR 0x0C, CHR 0x0D, CHR 0x20, CHR 0xA0]"

definition trim :: "string \<Rightarrow> string" where
  "trim s = rev (dropWhile js_space (rev (dropWhile js_space s)))"

definition startsWith :: "string \<Rightarrow> string \<Rightarrow> bool" where
  "startsWith s p \<longleftrightarrow> take (length p) s = p"

fun str_includes :: "string \<Rightarrow> string \<Rightarrow> bool" where
  "str_includes [] p = (p = [])"
| "str_includes (c # cs) p = (startsWith (c # cs) p \<or> str_includes cs p)"

text \<open>\<^verbatim>\<open>text.split('\n\n')\<close> and \<^verbatim>\<open>chunk.split('\n')\<close>; \<open>acc\<close> is the current piece, reversed.\<close>

fun split_blank :: "string \<Rightarrow> string \<Rightarrow> string list" where
  "split_blank acc [] = [rev acc]"
| "split_blank acc [a] = [rev (a # acc)]"
| "split_blank acc (a # b # cs) =
     (if a = CHR 0x0A \<and> b = CHR 0x0A then rev acc # split_blank [] cs
      else split_blank (a # acc) (b # cs))"

fun split_lines :: "string \<Rightarrow> string \<Rightarrow> string list" where
  "split_lines acc [] = [rev acc]"
| "split_lines acc (a # cs) =
     (if a = CHR 0x0A then rev acc # split_lines [] cs else split_lines (a # acc) cs)"

text \<open>The two nested loops: the last non-empty payload of a \<open>data:\<close> line of the body.\<close>

definition scan_line :: "string option \<Rightarrow> string \<Rightarrow> string option" where
  "scan_line lastData line =
     (if startsWith line ''data:'' then
        (let payload = trim (drop 5 line) in if payload \<noteq> [] then Some payload else lastData)
      else lastData)"

definition scan_chunks :: "string \<Rightarrow> string option" where
  "scan_chunks text =
     foldl (\<lambda>lastData chunk. foldl scan_line lastData (split_lines [] chunk)) None
       (filter (\<lambda>c. c \<noteq> []) (map trim (split_blank [] text)))"

text \<open>
  The regular expression \<^verbatim>\<open>/data:\s*(\{[\s\S]*?\})(?=\n|$)/g\<close>. \<open>find_close\<close> is the lazy
  body: up to the first closing brace that a line feed or the end of the text follows;
  it returns the body and how many characters it took. \<open>match_here\<close> is one attempt at
  the head of the text: the captured group and the length of the match. \<open>match_all\<close>
  walks the text as \<^verbatim>\<open>matchAll\<close> does and keeps the last group.
\<close>

fun find_close :: "string \<Rightarrow> string \<Rightarrow> (string \<times> nat) option" where
  "find_close acc [] = None"
| "find_close acc (c # cs) =
     (if c = CHR ''}'' \<and> (case cs of [] \<Rightarrow> True | d # ds \<Rightarrow> d = CHR 0x0A)
      then Some (rev (c # acc), length acc + 1)
      else find_close (c # acc) cs)"

definition match_here :: "string \<Rightarrow> (string \<times> nat) option" where
  "match_here s =
     (if startsWith s ''data:'' then
        (let sp = takeWhile js_space (drop 5 s); r = dropWhile js_space (drop 5 s)
         in (case r of
               [] \<Rightarrow> None
             | c # cs \<Rightarrow>
                 (if c = CHR ''{'' then
                    (case find_close [] cs of
                       None \<Rightarrow> None
                     | Some (body, n) \<Rightarrow> Some (c # body, 5 + length sp + 1 + n))
                  else None)))
      else None)"

function match_all :: "string option \<Rightarrow> string \<Rightarrow> string option" where
  "match_all lastData [] = lastData"
| "match_all lastData (c # cs) =
     (case match_here (c # cs) of
        None \<Rightarrow> match_all lastData cs
      | Some (g, n) \<Rightarrow> match_all (Some g) (drop (n - 1) cs))"
  by pat_completeness auto
termination
  by (relation "measure (\<lambda>(lastData, s). length s)") auto

text \<open>
  The tail of \<^verbatim>\<open>parseSseLike\<close>: two \<^verbatim>\<open>try\<close> blocks. The second one decodes the payload,
  converts what it got to a string and decodes that.
\<close>

definition parse_twice :: "js_runtime \<Rightarrow> string \<Rightarrow> json option" where
  "parse_twice rt s =
     (case JSON_parse rt s of
        None \<Rightarrow> None
      | Some v \<Rightarrow> (case js_String rt v of Inl e \<Rightarrow> None | Inr s' \<Rightarrow> JSON_parse rt s'))"

definition parseSseLike :: "js_runtime \<Rightarrow> string \<Rightarrow> json" where
  "parseSseLike rt text =
     (let lastData = scan_chunks text;
          lastData' = (if lastData = None \<and> str_includes text ''data:''
                       then match_all None text else lastData)
      in (case lastData' of
            None \<Rightarrow> JNull
          | Some d \<Rightarrow>
              (case JSON_parse rt d of
                 Some v \<Rightarrow> v
               | None \<Rightarrow> (case parse_twice rt d of Some v \<Rightarrow> v | None \<Rightarrow> JNull))))"

section \<open>Remote invoker\<close>

text \<open>
  What \<^verbatim>\<open>fetch\<close> did: it rejected (connection failure, or the abort of the timeout),
  with the thrown value's \<open>message\<close> and its string; or it gave a response with a status,
  a \<open>content-type\<close> header and a body, whose reading can reject too.
\<close>

datatype thrown = Thrown "string option" string

datatype http_outcome = Rejected thrown | Response nat "string option" "thrown + string"

text \<open>The letters with a lower case below 256: A to Z, and 0xC0 to 0xDE but for 0xD7.\<close>

definition toLowerCase :: "string \<Rightarrow> string" where
  "toLowerCase s =
     map (\<lambda>c. if (CHR ''A'' \<le> c \<and> c \<le> CHR ''Z'')
                   \<or> (CHR 0xC0 \<le> c \<and> c \<le> CHR 0xDE \<and> c \<noteq> CHR 0xD7)
                then char_of (of_char c + (32::nat)) else c) s"

definition network_error :: "json \<Rightarrow> thrown \<Rightarrow> json" where
  "network_error expectId e =
     makeError (Some expectId) (- 32098) ''Network error forwarding to remote MCP''
       (Some (JStr (case e of Thrown m s \<Rightarrow>
                      (case m of None \<Rightarrow> s | Some x \<Rightarrow> if x \<noteq> [] then x else s))))"

text \<open>The body decoder of \<^verbatim>\<open>forwardToRemote\<close>, after the status check.\<close>

definition decode_body :: "js_runtime \<Rightarrow> string \<Rightarrow> string \<Rightarrow> json \<Rightarrow> json" where
  "decode_body rt ct text expectId =
     (if str_includes ct ''text/event-stream'' then
        (let parsed = parseSseLike rt text
         in if \<not> truthy parsed
            then makeError (Some expectId) (- 32700) ''Parse error (no SSE data)'' (Some (JStr text))
            else parsed)
      else
        (case JSON_parse rt text of
           Some v \<Rightarrow> v
         | None \<Rightarrow>
             (let parsed = parseSseLike rt text
              in if truthy parsed then parsed
                 else makeError (Some expectId) (- 32700) ''Parse error (invalid JSON)''
                        (Some (JStr text)))))"

definition forwardToRemote :: "js_runtime \<Rightarrow> http_outcome \<Rightarrow> json \<Rightarrow> json" where
  "forwardToRemote rt outcome expectId =
     (case outcome of
        Rejected e \<Rightarrow> network_error expectId e
      | Response status ctype body \<Rightarrow>
          (let ct = toLowerCase (case ctype of None \<Rightarrow> [] | Some c \<Rightarrow> c)
           in (case body of
                 Inl e \<Rightarrow> network_error expectId e
               | Inr text \<Rightarrow>
                   (if \<not> (200 \<le> status \<and> status \<le> 299) then
                      makeError (Some expectId) (- 32000) (''Remote MCP error '' @ dec status)
                        (Some (JStr text))
                    else decode_body rt ct text expectId))))"

section \<open>Response reconciler\<close>

text \<open>
  The value of a property read that the test around it has shown to be defined
  (\<^verbatim>\<open>if (remote && remote.result) ... remote.result\<close>); the second equation is never
  reached from the bridge.
\<close>

fun value_of :: "json option \<Rightarrow> json" where
  "value_of (Some v) = v"
| "value_of None = JNull"

text \<open>
  The object \<^verbatim>\<open>localInitializeSuccess(id)\<close> returns; its assignment to the flag
  \<open>initialized\<close> is made where it is called, in \<open>handle_initialize\<close>.
\<close>

definition localInitializeSuccess :: "json \<Rightarrow> json" where
  "localInitializeSuccess rid =
     JObj [(''jsonrpc'', JStr ''2.0''),
           (''id'', rid),
           (''result'',
            JObj [(''protocolVersion'', JStr ''2024-11-05''),
                  (''serverInfo'',
                   JObj [(''name'', JStr ''dify-mcp-bridge''), (''version'', JStr ''1.0.0'')]),
                  (''capabilities'', JObj []),
                  (''tools'', JArr [])])]"

definition normalizeRemoteError :: "js_runtime \<Rightarrow> json \<Rightarrow> exn + json" where
  "normalizeRemoteError rt err =
     (if \<not> truthy err \<or> \<not> typeof_object err then
        (case js_String rt (or_else (Some err) (JStr ''Remote error'')) of
           Inl e \<Rightarrow> Inl e
         | Inr m \<Rightarrow> Inr (JObj [(''code'', JNum (Fin (- 32000))), (''message'', JStr m)]))
      else
        (case js_Number rt
                (case get err ''code'' of
                   Some c \<Rightarrow> c
                 | None \<Rightarrow>
                     (case get err ''status'' of Some s \<Rightarrow> s | None \<Rightarrow> JNum (Fin (- 32000)))) of
           Inl e \<Rightarrow> Inl e
         | Inr code \<Rightarrow>
             (case js_String rt
                     (or_else (qq (qq (get err ''message'') (get err ''error'')) (get err ''reason''))
                        (JStr ''Remote error'')) of
                Inl e \<Rightarrow> Inl e
              | Inr message \<Rightarrow>
                  (let out = [(''code'', JNum code), (''message'', JStr message)]
                   in Inr (JObj (case get err ''data'' of
                                   None \<Rightarrow> out
                                 | Some d \<Rightarrow> AList.update ''data'' d out))))))"

text \<open>
  \<^verbatim>\<open>coerceToValidResponseForClient(resp, fallbackId)\<close>: the frames it writes itself (the
  notification of its first branch) and the response it returns, or the exception.
\<close>

definition coerceToValidResponseForClient ::
    "js_runtime \<Rightarrow> json \<Rightarrow> json \<Rightarrow> effect list \<times> (exn + json)" where
  "coerceToValidResponseForClient rt resp fallbackId =
     (if truthy resp \<and> typeof_object resp \<and> has_key resp ''method'' \<and> \<not> has_key resp ''id'' then
        (let method = (case get resp ''method'' of
                         Some (JStr m) \<Rightarrow> m
                       | _ \<Rightarrow> ''remote/notification'');
             params = (if truthy_opt (get resp ''params'') \<and> typeof_object_opt (get resp ''params'')
                       then get resp ''params'' else Some (JObj []))
         in ([sendNotification method params],
             Inr (JObj [(''jsonrpc'', JStr ''2.0''),
                        (''id'', or_else (Some fallbackId) JNull),
                        (''result'', JObj [(''ok'', JBool True)])])))
      else if \<not> truthy resp \<or> \<not> typeof_object resp then
        ([], Inr (makeError (Some fallbackId) (- 32603) ''Remote returned non-object'' None))
      else if has_key resp ''error'' \<and> get resp ''error'' \<noteq> None \<and> get resp ''error'' \<noteq> Some JNull then
        (case normalizeRemoteError rt (value_of (get resp ''error'')) of
           Inl e \<Rightarrow> ([], Inl e)
         | Inr nerr \<Rightarrow>
             ([], Inr (JObj [(''jsonrpc'', JStr ''2.0''),
                            (''id'', or_else (get resp ''id'') (or_else (Some fallbackId) JNull)),
                            (''error'', nerr)])))
      else if \<not> has_key resp ''result'' \<and> (has_key resp ''message'' \<or> has_key resp ''status'') then
        (case normalizeRemoteError rt resp of
           Inl e \<Rightarrow> ([], Inl e)
         | Inr nerr \<Rightarrow>
             ([], Inr (JObj [(''jsonrpc'', JStr ''2.0''),
                            (''id'', or_else (get resp ''id'') (or_else (Some fallbackId) JNull)),
                            (''error'', nerr)])))
      else if \<not> has_key resp ''result'' then
        ([], Inr (makeError (Some fallbackId) (- 32603) ''Remote missing result and error'' None))
      else
        ([], Inr (JObj ([(''jsonrpc'', JStr ''2.0''),
                         (''id'', or_else (get resp ''id'') (or_else (Some fallbackId) JNull))]
                        @ (case get resp ''result'' of
                             Some r \<Rightarrow> [(''result'', r)]
                           | None \<Rightarrow> [])))))"

section \<open>Session controller\<close>

text \<open>
  One call of \<^verbatim>\<open>handleMessage(line)\<close>: the runtime, what the remote does with the
  request body posted, the flag \<open>initialized\<close> before the call and the line; it gives the effects in
  order, the flag afterwards, and whether the promise resolved or rejected.
\<close>

type_synonym handled = "effect list \<times> bool \<times> (exn + unit)"

definition respond :: "json \<Rightarrow> bool \<Rightarrow> effect list \<times> (exn + json) \<Rightarrow> handled" where
  "respond msg initialized r =
     (case r of
        (fx, Inl e) \<Rightarrow> (Post (wire msg) # fx, initialized, Inl e)
      | (fx, Inr safe) \<Rightarrow> (Post (wire msg) # fx @ [sendResponse safe], initialized, Inr ()))"

definition handle_initialize ::
    "js_runtime \<Rightarrow> (json \<Rightarrow> http_outcome) \<Rightarrow> json \<Rightarrow> json \<Rightarrow> handled" where
  "handle_initialize rt net msg rid =
     (let remote = forwardToRemote rt (net (wire msg)) rid
      in if truthy remote \<and> truthy_opt (get remote ''result'') then
           (case repairToolsInInitializeResult rt (value_of (get remote ''result'')) of
              Inl e \<Rightarrow> ([Post (wire msg)], True, Inl e)
            | Inr r \<Rightarrow>
                respond msg True
                  (coerceToValidResponseForClient rt (set_prop remote ''result'' r) rid))
         else if truthy remote \<and> truthy_opt (get remote ''error'') then
           (let err = value_of (get remote ''error'');
                logged = [Post (wire msg),
                          Stderr ''[dify-bridge] Remote initialize failed, returning local minimal initialize. Remote error:'',
                          sendResponse (localInitializeSuccess rid)]
            in (case js_String rt
                       (if truthy_opt (get err ''message'') then value_of (get err ''message'')
                        else JStr ''unknown'') of
                  Inl e \<Rightarrow> (logged, True, Inl e)
                | Inr m \<Rightarrow>
                    (logged @
                     [sendNotification ''notifications/message''
                        (Some (JObj [(''level'', JStr ''warning''),
                                     (''message'',
                                      JStr (''dify-bridge: remote initialize failed ('' @ m @ '')''))]))],
                     True, Inr ())))
         else ([Post (wire msg), sendResponse (localInitializeSuccess rid)], True, Inr ()))"

text \<open>Lines 266 to 268: the tool list inside a result is sanitized in place.\<close>

definition sanitize_remote :: "js_runtime \<Rightarrow> json \<Rightarrow> exn + json" where
  "sanitize_remote rt remote =
     (if truthy remote \<and> truthy_opt (get remote ''result'')
         \<and> isArray (get (value_of (get remote ''result'')) ''tools'') then
        (case repairToolsInInitializeResult rt (value_of (get remote ''result'')) of
           Inl e \<Rightarrow> Inl e
         | Inr r \<Rightarrow> Inr (set_prop remote ''result'' r))
      else Inr remote)"

definition handle_other ::
    "js_runtime \<Rightarrow> (json \<Rightarrow> http_outcome) \<Rightarrow> bool \<Rightarrow> json \<Rightarrow> json \<Rightarrow> handled" where
  "handle_other rt net initialized msg rid =
     (case sanitize_remote rt (forwardToRemote rt (net (wire msg)) rid) of
        Inl e \<Rightarrow> ([Post (wire msg)], initialized, Inl e)
      | Inr remote \<Rightarrow> respond msg initialized (coerceToValidResponseForClient rt remote rid))"

fun is_string :: "json option \<Rightarrow> bool" where
  "is_string (Some (JStr s)) = True"
| "is_string v = False"

definition handleMessage ::
    "js_runtime \<Rightarrow> (json \<Rightarrow> http_outcome) \<Rightarrow> bool \<Rightarrow> string \<Rightarrow> handled" where
  "handleMessage rt net initialized line =
     (if line = [] \<or> trim line = [] then ([], initialized, Inr ())
      else
        (case JSON_parse rt line of
           None \<Rightarrow> ([], initialized, Inr ())
         | Some msg \<Rightarrow>
             (case get_prop msg ''id'' of
                Inl e \<Rightarrow> ([], initialized, Inl e)
              | Inr mid \<Rightarrow>
                  (case get_prop msg ''method'' of
                     Inl e \<Rightarrow> ([], initialized, Inl e)
                   | Inr method \<Rightarrow>
                       (let rid = or_else mid JNull
                        in if \<not> is_string method \<or> \<not> truthy_opt method then
                             ([sendResponse
                                 (makeError (Some rid) (- 32600) ''Invalid Request: missing method''
                                    None)],
                              initialized, Inr ())
                           else if method = Some (JStr ''initialize'') then
                             handle_initialize rt net msg rid
                           else handle_other rt net initialized msg rid)))))"

text \<open>
  The listener of line 276: a rejection of \<^verbatim>\<open>handleMessage\<close> is logged on standard error
  and goes no further.
\<close>

definition on_line ::
    "js_runtime \<Rightarrow> (json \<Rightarrow> http_outcome) \<Rightarrow> bool \<Rightarrow> string \<Rightarrow> effect list \<times> bool" where
  "on_line rt net initialized line =
     (case handleMessage rt net initialized line of
        (fx, flag, Inl e) \<Rightarrow> (fx @ [Stderr ''[dify-bridge] handleMessage error''], flag)
      | (fx, flag, Inr u) \<Rightarrow> (fx, flag))"

text \<open>The lines on standard output and the bodies posted, of a list of effects.\<close>

fun stdout_of :: "effect list \<Rightarrow> json list" where
  "stdout_of [] = []"
| "stdout_of (Stdout j # fx) = j # stdout_of fx"
| "stdout_of (e # fx) = stdout_of fx"

fun posts_of :: "effect list \<Rightarrow> json list" where
  "posts_of [] = []"
| "posts_of (Post j # fx) = j # posts_of fx"
| "posts_of (e # fx) = posts_of fx"

section \<open>Properties the specification states\<close>

text \<open>
  A name that sanitizing leaves as it is: not empty, at most 64 characters, all of them
  in the class.
\<close>

definition stable_name :: "string \<Rightarrow> bool" where
  "stable_name n \<longleftrightarrow> n \<noteq> [] \<and> length n \<le> 64 \<and> list_all name_char n"

text \<open>
  The length of the tool list of a result (zero when it has none). A JavaScript array has
  fewer than \<open>2 ^ 32\<close> elements.
\<close>

definition tools_length :: "json \<Rightarrow> nat" where
  "tools_length result = (case get result ''tools'' of Some (JArr ts) \<Rightarrow> length ts | _ \<Rightarrow> 0)"

text \<open>
  The values \<^verbatim>\<open>String\<close> converts without raising; the descriptors whose name is one; the
  remote payloads whose tool list, if any, holds only such descriptors.
\<close>

fun convertible :: "json \<Rightarrow> bool" where
  "convertible (JObj kvs) = (''toString'' \<notin> set (map fst kvs))"
| "convertible (JArr xs) = (\<forall>x\<in>set xs. convertible x)"
| "convertible v = True"

definition name_convertible :: "json \<Rightarrow> bool" where
  "name_convertible t = (case get t ''name'' of Some v \<Rightarrow> convertible v | None \<Rightarrow> True)"

definition tools_convertible :: "json \<Rightarrow> bool" where
  "tools_convertible remote =
     (case get remote ''result'' of
        Some r \<Rightarrow> (case get r ''tools'' of Some (JArr ts) \<Rightarrow> list_all name_convertible ts | _ \<Rightarrow> True)
      | None \<Rightarrow> True)"

text \<open>
  Following the spec's words: "replacing every character outside \<^verbatim>\<open>[A-Za-z0-9_-]\<close> with
  \<^verbatim>\<open>_\<close>, truncating to 64 characters, and substituting a positional fallback name
  (\<^verbatim>\<open>tool_<1-based index>\<close>) if the result is empty".
\<close>

definition spec_tool_name :: "string \<Rightarrow> nat \<Rightarrow> string" where
  "spec_tool_name s idx =
     (let replaced = map (\<lambda>c. if name_char c then c else CHR ''_'') s;
          truncated = take 64 replaced
      in if truncated = [] then ''tool_'' @ dec idx else truncated)"

text \<open>
  The fields of a descriptor other than its name, in order, with their values.
\<close>

definition other_fields :: "(string \<times> json) list \<Rightarrow> (string \<times> json) list" where
  "other_fields fs = filter (\<lambda>kv. fst kv \<noteq> ''name'') fs"

text \<open>
  The two shapes of a line on the outbound transport: a response addressed to \<open>rid\<close>, with
  the version tag, exactly one of \<open>result\<close> and \<open>error\<close> and no other field; and a
  notification, with the version tag, a method, params and no identifier.
\<close>

definition is_response :: "json \<Rightarrow> json \<Rightarrow> bool" where
  "is_response rid f =
     (case f of
        JObj kvs \<Rightarrow>
          (map fst kvs = [''jsonrpc'', ''id'', ''result''] \<or> map fst kvs = [''jsonrpc'', ''id'', ''error''])
          \<and> map_of kvs ''jsonrpc'' = Some (JStr ''2.0'') \<and> map_of kvs ''id'' = Some rid
      | _ \<Rightarrow> False)"

definition is_notification :: "json \<Rightarrow> bool" where
  "is_notification f =
     (case f of
        JObj kvs \<Rightarrow>
          map fst kvs = [''jsonrpc'', ''method'', ''params'']
          \<and> map_of kvs ''jsonrpc'' = Some (JStr ''2.0'') \<and> is_string (map_of kvs ''method'')
      | _ \<Rightarrow> False)"

text \<open>
  The remote payloads whose own identifier the reconciler uses: a mapping that is not
  notification-shaped and has an error that is not \<^verbatim>\<open>null\<close>, or a result, a message or a
  status field. \<open>addressed_to\<close> is the identifier of the response to a message: that of
  such a payload when it has one that is not \<^verbatim>\<open>null\<close> (for \<^verbatim>\<open>initialize\<close>, only when the
  payload has a truthy result, the one case in which it is reconciled), and in every other
  case the identifier of the message, \<^verbatim>\<open>null\<close> when it has none.
\<close>

definition payload_answers :: "json \<Rightarrow> bool" where
  "payload_answers resp \<longleftrightarrow>
     truthy resp \<and> typeof_object resp
     \<and> (has_key resp ''id'' \<or> \<not> has_key resp ''method'')
     \<and> ((get resp ''error'' \<noteq> None \<and> get resp ''error'' \<noteq> Some JNull)
        \<or> has_key resp ''result'' \<or> has_key resp ''message'' \<or> has_key resp ''status'')"

definition addressed_to :: "json \<Rightarrow> json \<Rightarrow> json" where
  "addressed_to msg remote =
     (if is_string (get msg ''method'') \<and> truthy_opt (get msg ''method'')
         \<and> payload_answers remote
         \<and> (truthy_opt (get remote ''result'') \<or> get msg ''method'' \<noteq> Some (JStr ''initialize''))
      then or_else (get remote ''id'') (or_else (get msg ''id'') JNull)
      else or_else (get msg ''id'') JNull)"

text \<open>
  The numbers that are integers.
\<close>

fun is_integer :: "jsnum \<Rightarrow> bool" where
  "is_integer (Fin r) = (of_int \<lfloor>r\<rfloor> = r)"
| "is_integer n = False"

text \<open>
  Following the spec's words: the code of a Normalized Error comes from "a remote error's
  \<^verbatim>\<open>code\<close>/\<^verbatim>\<open>status\<close> field (default -32000 if absent)", its message from "its
  \<^verbatim>\<open>message\<close>/\<^verbatim>\<open>error\<close>/\<^verbatim>\<open>reason\<close> field (default a generic string if absent)".
\<close>

definition spec_code_source :: "json \<Rightarrow> json" where
  "spec_code_source err =
     (case get err ''code'' of
        Some c \<Rightarrow> c
      | None \<Rightarrow> (case get err ''status'' of Some s \<Rightarrow> s | None \<Rightarrow> JNum (Fin (- 32000))))"

definition spec_message_source :: "json \<Rightarrow> json" where
  "spec_message_source err =
     or_else (qq (qq (get err ''message'') (get err ''error'')) (get err ''reason''))
       (JStr ''Remote error'')"

text \<open>
  The message the warning of a failed initialize carries: the \<open>message\<close> of the remote's
  error when it has a truthy one, \<^verbatim>\<open>unknown\<close> otherwise.
\<close>

definition error_message_of :: "json \<Rightarrow> json" where
  "error_message_of err =
     (case get err ''message'' of
        Some v \<Rightarrow> if truthy v then v else JStr ''unknown''
      | None \<Rightarrow> JStr ''unknown'')"

section \<open>A runtime for the examples\<close>

text \<open>
  The texts the examples use. \<open>example_parse\<close> is \<^verbatim>\<open>JSON.parse\<close> on them; it throws on
  every other text the examples hand to it (none of those is JSON). \<open>quoted_text\<close> is the
  JSON string literal whose content is \<open>inner_text\<close>.
\<close>

definition req_list :: string where
  \<open>req_list = ''{"jsonrpc":"2.0","id":7,"method":"tools/list"}''\<close>

definition req_init :: string where
  \<open>req_init = ''{"jsonrpc":"2.0","id":7,"method":"initialize"}''\<close>

definition req_no_method :: string where
  \<open>req_no_method = ''{"jsonrpc":"2.0","id":3}''\<close>

definition body_ok :: string where
  \<open>body_ok = ''{"id":7,"result":{"x":1}}''\<close>

definition body_other_id :: string where
  \<open>body_other_id = ''{"jsonrpc":"2.0","id":99,"result":{}}''\<close>

definition body_log :: string where
  \<open>body_log = ''{"method":"log","params":{"level":"info"}}''\<close>

definition body_boom :: string where
  \<open>body_boom = ''{"id":7,"error":{"message":"boom"}}''\<close>

definition body_both :: string where
  \<open>body_both = ''{"result":{"x":1},"error":{"message":"boom"}}''\<close>

definition body_down :: string where
  \<open>body_down = ''{"id":7,"status":"x","message":"down"}''\<close>

definition body_only_id :: string where
  \<open>body_only_id = ''{"id":99}''\<close>

definition body_error_99 :: string where
  \<open>body_error_99 = ''{"id":99,"error":{"message":"boom"}}''\<close>

definition req_big_id :: string where
  \<open>req_big_id = ''{"jsonrpc":"2.0","id":1e999}''\<close>

definition inner_text :: string where
  \<open>inner_text = ''{"a":1}''\<close>

definition quoted_text :: string where
  "quoted_text = [CHR 0x22] @ ''{'' @ [CHR 0x5C, CHR 0x22] @ ''a'' @ [CHR 0x5C, CHR 0x22] @ '':1}'' @ [CHR 0x22]"

definition sse_ok :: string where
  "sse_ok = ''data: '' @ body_ok"

definition sse_quoted :: string where
  "sse_quoted = ''data: '' @ quoted_text"

definition example_parse :: "string \<Rightarrow> json option" where
  "example_parse =
     map_of
       [(''null'', JNull),
        (req_list, JObj [(''jsonrpc'', JStr ''2.0''), (''id'', JNum (Fin 7)), (''method'', JStr ''tools/list'')]),
        (req_init, JObj [(''jsonrpc'', JStr ''2.0''), (''id'', JNum (Fin 7)), (''method'', JStr ''initialize'')]),
        (req_no_method, JObj [(''jsonrpc'', JStr ''2.0''), (''id'', JNum (Fin 3))]),
        (body_ok, JObj [(''id'', JNum (Fin 7)), (''result'', JObj [(''x'', JNum (Fin 1))])]),
        (body_other_id, JObj [(''jsonrpc'', JStr ''2.0''), (''id'', JNum (Fin 99)), (''result'', JObj [])]),
        (body_log, JObj [(''method'', JStr ''log''), (''params'', JObj [(''level'', JStr ''info'')])]),
        (body_boom, JObj [(''id'', JNum (Fin 7)), (''error'', JObj [(''message'', JStr ''boom'')])]),
        (body_both, JObj [(''result'', JObj [(''x'', JNum (Fin 1))]),
                          (''error'', JObj [(''message'', JStr ''boom'')])]),
        (body_down, JObj [(''id'', JNum (Fin 7)), (''status'', JStr ''x''), (''message'', JStr ''down'')]),
        (body_only_id, JObj [(''id'', JNum (Fin 99))]),
        (body_error_99, JObj [(''id'', JNum (Fin 99)), (''error'', JObj [(''message'', JStr ''boom'')])]),
        (req_big_id, JObj [(''jsonrpc'', JStr ''2.0''), (''id'', JNum (Infinite False))]),
        (inner_text, JObj [(''a'', JNum (Fin 1))]),
        (quoted_text, JStr inner_text)]"

text \<open>
  The runtime of the examples. No example converts a number to a string or a string to a
  number; of the two conversions, \<open>Number_toString\<close> is right on \<open>NaN\<close>, the infinities
  and the integers of fewer than 22 digits, and \<open>StringToNumber\<close> on every string that
  does not read as a number.
\<close>

definition example_rt :: js_runtime where
  "example_rt =
     \<lparr>JSON_parse = example_parse,
      Number_toString =
        (\<lambda>n. case n of
               NaN \<Rightarrow> ''NaN''
             | Infinite negative \<Rightarrow> (if negative then ''-Infinity'' else ''Infinity'')
             | Fin r \<Rightarrow> (if r < 0 then ''-'' else []) @ dec (nat \<lfloor>\<bar>r\<bar>\<rfloor>)),
      StringToNumber = (\<lambda>s. NaN)\<rparr>"

text \<open>
  A remote that answers every request with status 200, type \<^verbatim>\<open>application/json\<close> and
  the given body.
\<close>

definition json_reply :: "string \<Rightarrow> json \<Rightarrow> http_outcome" where
  "json_reply body request = Response 200 (Some ''application/json'') (Inr body)"

section \<open>Basic facts\<close>

declare dec.simps [simp del]

lemma digit_name_char: "d < 10 \<Longrightarrow> name_char (''0123456789'' ! d)"
proof -
  assume d: "d < 10"
  have "list_all name_char ''0123456789''"
    by (simp add: name_char_def)
  then show ?thesis
    using d by (simp only: list_all_length) simp
qed

lemma dec_name_chars: "list_all name_char (dec n)"
proof (induction n rule: dec.induct)
  case (1 n)
  show ?case
  proof (cases "n < 10")
    case True
    then show ?thesis by (subst dec.simps) (simp add: digit_name_char)
  next
    case False
    with 1 show ?thesis by (subst dec.simps) (simp add: digit_name_char)
  qed
qed

lemma dec_digits: "list_all (\<lambda>c. c \<in> set ''0123456789'') (dec n)"
proof (induction n rule: dec.induct)
  case (1 n)
  have d: "''0123456789'' ! k \<in> set ''0123456789''" if "k < 10" for k
    using that nth_mem[of k "''0123456789''"] by simp
  show ?case
  proof (cases "n < 10")
    case True
    then show ?thesis using d[of n] by (subst dec.simps) simp
  next
    case False
    with 1 show ?thesis using d[of "n mod 10"] by (subst dec.simps) simp
  qed
qed

lemma dec_length: "n < 10 ^ k \<Longrightarrow> 0 < k \<Longrightarrow> length (dec n) \<le> k"
proof (induction n arbitrary: k rule: dec.induct)
  case (1 n)
  show ?case
  proof (cases "n < 10")
    case True
    then show ?thesis using 1(3) by (subst dec.simps) simp
  next
    case False
    obtain j where k: "k = Suc j" using 1(3) by (cases k) auto
    have "j \<noteq> 0" using False 1(2) k by (cases j) auto
    moreover have "n div 10 < 10 ^ j" using 1(2) k by (simp add: less_mult_imp_div_less mult.commute)
    ultimately have "length (dec (n div 10)) \<le> j" using 1(1)[OF False, of j] by simp
    then show ?thesis using False k by (subst dec.simps) simp
  qed
qed

lemma update_update_same: "AList.update k v (AList.update k v al) = AList.update k v al"
  by (induction al) auto

lemma map_of_update_same: "map_of (AList.update k v al) k = Some v"
  by (induction al) auto

lemma filter_update_other:
  "filter (\<lambda>kv. fst kv \<noteq> k) (AList.update k v al) = filter (\<lambda>kv. fst kv \<noteq> k) al"
  by (induction al) auto

lemma keys_update:
  "map fst (AList.update k v al) = (if k \<in> set (map fst al) then map fst al else map fst al @ [k])"
  by (induction al) auto

lemma update_new_last: "k \<notin> set (map fst al) \<Longrightarrow> AList.update k v al = al @ [(k, v)]"
  by (induction al) auto

lemma name_not_index: "''name'' \<notin> set (map dec ns)"
proof
  assume "''name'' \<in> set (map dec ns)"
  then obtain k where "dec k = ''name''" by auto
  then have "list_all (\<lambda>c. c \<in> set ''0123456789'') ''name''"
    using dec_digits[of k] by simp
  then show False by simp
qed

lemma or_else_self: "or_else (Some v) JNull = v"
  by (cases v) (simp_all add: or_else_def)

lemma has_key_get: "has_key (JObj kvs) k \<longleftrightarrow> map_of kvs k \<noteq> None"
  by (simp add: map_of_eq_None_iff)

lemma get_set_prop_other: "k' \<noteq> k \<Longrightarrow> get (set_prop v k x) k' = get v k'"
  by (cases v) (simp_all add: update_conv')

lemma has_key_set_prop: "has_key v k \<Longrightarrow> has_key (set_prop v k x) k' = has_key v k'"
  by (cases v) (simp_all add: keys_update)

lemma truthy_has_key: "truthy_opt (get v k) \<Longrightarrow> has_key v k"
  by (cases v) (auto simp: truthy_opt_def has_key_get simp del: has_key.simps(1) split: option.splits)

lemma stdout_of_append: "stdout_of (xs @ ys) = stdout_of xs @ stdout_of ys"
  by (induction xs rule: stdout_of.induct) simp_all

lemma trim_Nil: "trim [] = []"
  by (simp add: trim_def)

lemma js_String_total:
  "convertible v \<Longrightarrow> \<exists>s. js_String rt v = Inr s"
  "(\<forall>x\<in>set xs. convertible x) \<Longrightarrow> \<exists>s. join_elems rt xs = Inr s"
proof (induction rt v and rt xs rule: js_String_join_elems.induct)
  case (8 rt x xs)
  obtain s where s: "(if x = JNull then Inr [] else js_String rt x) = Inr s"
    using 8(1) 8(3) by (cases "x = JNull") auto
  show ?case
  proof (cases "xs = []")
    case True
    then show ?thesis using s by simp
  next
    case False
    then obtain r where "join_elems rt xs = Inr r"
      using 8(2)[OF s] 8(3) by auto
    then show ?thesis using s False by simp
  qed
qed auto

section \<open>The examples, decoded\<close>

lemmas example_texts = req_list_def req_init_def req_no_method_def body_ok_def body_other_id_def
  body_log_def body_boom_def body_both_def body_down_def body_only_id_def body_error_99_def
  req_big_id_def inner_text_def quoted_text_def

lemma parse_req_list:
  "JSON_parse example_rt req_list
     = Some (JObj [(''jsonrpc'', JStr ''2.0''), (''id'', JNum (Fin 7)), (''method'', JStr ''tools/list'')])"
  by (simp add: example_rt_def example_parse_def example_texts)

lemma parse_req_init:
  "JSON_parse example_rt req_init
     = Some (JObj [(''jsonrpc'', JStr ''2.0''), (''id'', JNum (Fin 7)), (''method'', JStr ''initialize'')])"
  by (simp add: example_rt_def example_parse_def example_texts)

lemma parse_body_ok:
  "JSON_parse example_rt body_ok
     = Some (JObj [(''id'', JNum (Fin 7)), (''result'', JObj [(''x'', JNum (Fin 1))])])"
  by (simp add: example_rt_def example_parse_def example_texts)

lemma parse_body_other_id:
  "JSON_parse example_rt body_other_id
     = Some (JObj [(''jsonrpc'', JStr ''2.0''), (''id'', JNum (Fin 99)), (''result'', JObj [])])"
  by (simp add: example_rt_def example_parse_def example_texts)

lemma parse_body_log:
  "JSON_parse example_rt body_log
     = Some (JObj [(''method'', JStr ''log''), (''params'', JObj [(''level'', JStr ''info'')])])"
  by (simp add: example_rt_def example_parse_def example_texts)

lemma parse_body_boom:
  "JSON_parse example_rt body_boom
     = Some (JObj [(''id'', JNum (Fin 7)), (''error'', JObj [(''message'', JStr ''boom'')])])"
  by (simp add: example_rt_def example_parse_def example_texts)

lemma parse_body_both:
  "JSON_parse example_rt body_both
     = Some (JObj [(''result'', JObj [(''x'', JNum (Fin 1))]),
                   (''error'', JObj [(''message'', JStr ''boom'')])])"
  by (simp add: example_rt_def example_parse_def example_texts)

lemma parse_body_down:
  "JSON_parse example_rt body_down
     = Some (JObj [(''id'', JNum (Fin 7)), (''status'', JStr ''x''), (''message'', JStr ''down'')])"
  by (simp add: example_rt_def example_parse_def example_texts)

lemma parse_body_only_id:
  "JSON_parse example_rt body_only_id = Some (JObj [(''id'', JNum (Fin 99))])"
  by (simp add: example_rt_def example_parse_def example_texts)

lemma parse_body_error_99:
  "JSON_parse example_rt body_error_99
     = Some (JObj [(''id'', JNum (Fin 99)), (''error'', JObj [(''message'', JStr ''boom'')])])"
  by (simp add: example_rt_def example_parse_def example_texts)

lemma parse_null: "JSON_parse example_rt ''null'' = Some JNull"
  by (simp add: example_rt_def example_parse_def)

lemma parse_sse_text: "JSON_parse example_rt sse_ok = None"
  by (simp add: sse_ok_def example_rt_def example_parse_def example_texts)

lemma trim_req_list: "trim req_list = req_list"
  by (simp add: trim_def js_space_def req_list_def)

lemma trim_null: "trim ''null'' = ''null''"
  by (simp add: trim_def js_space_def)

lemma req_list_nonblank: "req_list \<noteq> [] \<and> trim req_list \<noteq> []"
  by (simp add: trim_req_list) (simp add: req_list_def)

lemma req_init_nonblank: "req_init \<noteq> [] \<and> trim req_init \<noteq> []"
  by (simp add: trim_def js_space_def req_init_def)

lemma ct_json: "\<not> str_includes (toLowerCase ''application/json'') ''text/event-stream''"
  by (simp add: toLowerCase_def startsWith_def)

lemma ct_sse: "str_includes (toLowerCase ''text/event-stream'') ''text/event-stream''"
  by (simp add: toLowerCase_def startsWith_def)

lemma forward_json:
  "JSON_parse example_rt body = Some v \<Longrightarrow> forwardToRemote example_rt (json_reply body m) rid = v"
  by (simp add: forwardToRemote_def json_reply_def decode_body_def ct_json)

section \<open>The sanitizer: idempotence and frame\<close>

lemma underscore_name_char: "name_char (CHR ''_'')"
  by (simp add: name_char_def)

lemma cleaned_name_chars:
  "list_all name_char (take n (map (\<lambda>c. if name_char c then c else CHR ''_'') s))"
  by (induction s arbitrary: n) (auto simp: underscore_name_char take_Cons' )

lemma cleaned_fixed:
  "list_all name_char s \<Longrightarrow> map (\<lambda>c. if name_char c then c else CHR ''_'') s = s"
  by (simp add: list_all_iff map_idI)

lemma sanitize_stable:
  assumes "sanitizeToolName rt v fb = Inr n" and "stable_name fb"
  shows "stable_name n"
  using assms
  by (auto simp: sanitizeToolName_def stable_name_def Let_def cleaned_name_chars
      split: sum.splits if_splits)

lemma sanitize_fixed: "stable_name n \<Longrightarrow> sanitizeToolName rt (Some (JStr n)) fb = Inr n"
  by (simp add: sanitizeToolName_def stable_name_def or_else_def cleaned_fixed)

lemma fallback_stable:
  assumes "i < 2 ^ 32"
  shows "stable_name (''tool_'' @ dec (i + 1))"
proof -
  have "i + 1 < 10 ^ 10" using assms by simp
  then have "length (dec (i + 1)) \<le> 10" by (rule dec_length) simp
  moreover have "list_all name_char ''tool_''" by (simp add: name_char_def)
  ultimately show ?thesis
    by (simp add: stable_name_def dec_name_chars)
qed

lemma repair_tool_idem:
  assumes "repair_tool rt i t = Inr t'" and "i < 2 ^ 32"
  shows "repair_tool rt i t' = Inr t'"
proof (cases "\<not> truthy t \<or> \<not> typeof_object t")
  case True
  then show ?thesis using assms(1) by (auto simp: repair_tool_def)
next
  case False
  then obtain n where n: "sanitizeToolName rt
        (Some (or_else (get t ''name'') (JStr (''tool_'' @ dec (i + 1))))) (''tool_'' @ dec (i + 1)) = Inr n"
    and t': "t' = JObj (AList.update ''name'' (JStr n) (spread t))"
    using assms(1) by (auto simp: repair_tool_def split: sum.splits)
  have "stable_name n"
    using n fallback_stable[OF assms(2)] by (rule sanitize_stable)
  then have "sanitizeToolName rt (Some (JStr n)) (''tool_'' @ dec (i + 1)) = Inr n"
    by (rule sanitize_fixed)
  then show ?thesis
    by (simp add: t' repair_tool_def map_of_update_same or_else_def update_update_same)
qed

lemma map_tools_idem:
  "map_tools rt i ts = Inr ts' \<Longrightarrow> i + length ts \<le> 2 ^ 32 \<Longrightarrow> map_tools rt i ts' = Inr ts'"
proof (induction ts arbitrary: i ts')
  case Nil
  then show ?case by simp
next
  case (Cons t ts)
  from Cons.prems(1) obtain u us where u: "repair_tool rt i t = Inr u"
    and us: "map_tools rt (i + 1) ts = Inr us" and ts': "ts' = u # us"
    by (auto split: sum.splits)
  have "repair_tool rt i u = Inr u"
    using u Cons.prems(2) by (intro repair_tool_idem) auto
  moreover have "map_tools rt (i + 1) us = Inr us"
    using us Cons.prems(2) by (intro Cons.IH) auto
  ultimately show ?case by (simp add: ts')
qed

text \<open>
  Claim C8. The Tool-Name Sanitizer is idempotent. Applied to what it returned it returns
  that again; when it raises, the second application is not reached. So applying it twice
  is applying it once, for every payload whose tool list is within the length of a
  JavaScript array: there the positional fallback \<^verbatim>\<open>tool_<index>\<close> is itself a name of
  at most 64 characters of the class, as every sanitized name is.
\<close>

theorem sanitizer_idempotent:
  assumes "tools_length result < 2 ^ 32"
  shows "(case repairToolsInInitializeResult rt result of
            Inl e \<Rightarrow> Inl e
          | Inr once \<Rightarrow> repairToolsInInitializeResult rt once)
         = repairToolsInInitializeResult rt result"
proof (cases "repairToolsInInitializeResult rt result")
  case (Inl e)
  then show ?thesis by simp
next
  case (Inr once)
  show ?thesis
  proof (cases "\<not> truthy result \<or> \<not> isArray (get result ''tools'')")
    case True
    then have "once = result" using Inr by (auto simp: repairToolsInInitializeResult_def)
    then show ?thesis using Inr by simp
  next
    case False
    then obtain kvs ts where r: "result = JObj kvs" and ts: "map_of kvs ''tools'' = Some (JArr ts)"
      by (cases result; cases "get result ''tools''" rule: isArray.cases) auto
    then obtain ts' where m: "map_tools rt 0 ts = Inr ts'"
      and once: "once = JObj (AList.update ''tools'' (JArr ts') kvs)"
      using Inr by (auto simp: repairToolsInInitializeResult_def split: sum.splits)
    have "length ts < 2 ^ 32" using assms r ts by (simp add: tools_length_def)
    then have "map_tools rt 0 ts' = Inr ts'" using m by (intro map_tools_idem) auto
    then have "repairToolsInInitializeResult rt once = Inr once"
      by (simp add: once repairToolsInInitializeResult_def map_of_update_same update_update_same)
    then show ?thesis using Inr by simp
  qed
qed

text \<open>
  The two names of the specification: \<^verbatim>\<open>My Tool!!\<close> becomes \<^verbatim>\<open>My_Tool__\<close>, the empty name
  at position 2 becomes \<^verbatim>\<open>tool_2\<close>, and both stay.
\<close>

theorem sanitizer_idempotent_witness:
  "tools_length (JObj [(''tools'', JArr [JObj [(''name'', JStr ''My Tool!!'')], JObj [(''name'', JStr '''')]])]) < 2 ^ 32
   \<and> repairToolsInInitializeResult example_rt
        (JObj [(''tools'', JArr [JObj [(''name'', JStr ''My Tool!!'')], JObj [(''name'', JStr '''')]])])
       = Inr (JObj [(''tools'', JArr [JObj [(''name'', JStr ''My_Tool__'')], JObj [(''name'', JStr ''tool_2'')]])])
   \<and> repairToolsInInitializeResult example_rt
        (JObj [(''tools'', JArr [JObj [(''name'', JStr ''My_Tool__'')], JObj [(''name'', JStr ''tool_2'')]])])
       = Inr (JObj [(''tools'', JArr [JObj [(''name'', JStr ''My_Tool__'')], JObj [(''name'', JStr ''tool_2'')]])])"
proof -
  have once: "repairToolsInInitializeResult example_rt
        (JObj [(''tools'', JArr [JObj [(''name'', JStr ''My Tool!!'')], JObj [(''name'', JStr '''')]])])
       = Inr (JObj [(''tools'', JArr [JObj [(''name'', JStr ''My_Tool__'')], JObj [(''name'', JStr ''tool_2'')]])])"
    by (simp add: repairToolsInInitializeResult_def repair_tool_def sanitizeToolName_def or_else_def
          name_char_def dec.simps)
  have len: "tools_length (JObj [(''tools'', JArr [JObj [(''name'', JStr ''My Tool!!'')], JObj [(''name'', JStr '''')]])]) < 2 ^ 32"
    by (simp add: tools_length_def)
  show ?thesis
    using sanitizer_idempotent[OF len, of example_rt] once len by simp
qed

lemma sanitize_spec:
  "js_String rt v = Inr s \<Longrightarrow> v \<noteq> JNull \<Longrightarrow>
   sanitizeToolName rt (Some v) (''tool_'' @ dec idx) = Inr (spec_tool_name s idx)"
  by (cases v) (auto simp: sanitizeToolName_def spec_tool_name_def or_else_def Let_def)

lemma spec_tool_name_fallback:
  "spec_tool_name (''tool_'' @ dec idx) idx = take 64 (''tool_'' @ dec idx)"
proof -
  have "list_all name_char (''tool_'' @ dec idx)"
    by (simp add: dec_name_chars name_char_def)
  then have "map (\<lambda>c. if name_char c then c else CHR ''_'') (''tool_'' @ dec idx) = ''tool_'' @ dec idx"
    by (rule cleaned_fixed)
  then show ?thesis
    unfolding spec_tool_name_def Let_def by (simp only:) simp
qed

lemma repair_tool_primitive:
  "\<not> truthy t \<or> \<not> typeof_object t \<Longrightarrow> repair_tool rt i t = Inr t"
  by (simp add: repair_tool_def)

lemma repair_tool_sanitized:
  assumes "js_String rt (or_else (map_of fs ''name'') (JStr fb)) = Inr s" and "fb = ''tool_'' @ dec (i + 1)"
  shows "repair_tool rt i (JObj fs) = Inr (JObj (AList.update ''name'' (JStr (spec_tool_name s (i + 1))) fs))"
proof -
  have nn: "or_else (map_of fs ''name'') (JStr fb) \<noteq> JNull"
    by (auto simp: or_else_def split: option.splits json.splits)
  have "sanitizeToolName rt (Some (or_else (map_of fs ''name'') (JStr fb))) (''tool_'' @ dec (i + 1))
          = Inr (spec_tool_name s (i + 1))"
    using assms(1) nn by (rule sanitize_spec)
  then show ?thesis
    unfolding repair_tool_def assms(2) by simp
qed

lemma repair_tool_object:
  assumes "name_convertible (JObj fs)"
  shows "\<exists>n. repair_tool rt i (JObj fs) = Inr (JObj (AList.update ''name'' (JStr n) fs)) \<and>
             (case map_of fs ''name'' of
                None \<Rightarrow> n = take 64 (''tool_'' @ dec (i + 1))
              | Some JNull \<Rightarrow> n = take 64 (''tool_'' @ dec (i + 1))
              | Some v \<Rightarrow> \<exists>s. js_String rt v = Inr s \<and> n = spec_tool_name s (i + 1))"
proof -
  define fb where "fb = ''tool_'' @ dec (i + 1)"
  show ?thesis
  proof (cases "map_of fs ''name'' = None \<or> map_of fs ''name'' = Some JNull")
    case True
    then have "js_String rt (or_else (map_of fs ''name'') (JStr fb)) = Inr fb"
      by (auto simp: or_else_def)
    then have "repair_tool rt i (JObj fs) =
        Inr (JObj (AList.update ''name'' (JStr (spec_tool_name fb (i + 1))) fs))"
      using fb_def by (rule repair_tool_sanitized)
    moreover have "spec_tool_name fb (i + 1) = take 64 fb"
      unfolding fb_def by (rule spec_tool_name_fallback)
    ultimately show ?thesis
      using True unfolding fb_def by auto
  next
    case False
    then obtain v where v: "map_of fs ''name'' = Some v" "v \<noteq> JNull" by auto
    then have "convertible v" using assms by (simp add: name_convertible_def)
    then obtain s where s: "js_String rt v = Inr s" using js_String_total(1) by blast
    have "or_else (map_of fs ''name'') (JStr fb) = v"
      using v by (cases v) (auto simp: or_else_def)
    then have "js_String rt (or_else (map_of fs ''name'') (JStr fb)) = Inr s"
      using s by simp
    then have "repair_tool rt i (JObj fs) =
        Inr (JObj (AList.update ''name'' (JStr (spec_tool_name s (i + 1))) fs))"
      using fb_def by (rule repair_tool_sanitized)
    then show ?thesis
      using v s by (cases v) auto
  qed
qed

lemma repair_tool_array:
  "repair_tool rt i (JArr xs)
     = Inr (JObj (zip (map dec [0..<length xs]) xs
                  @ [(''name'', JStr (take 64 (''tool_'' @ dec (i + 1))))]))"
proof -
  define fb where "fb = ''tool_'' @ dec (i + 1)"
  have "sanitizeToolName rt (Some (JStr fb)) (''tool_'' @ dec (i + 1)) = Inr (spec_tool_name fb (i + 1))"
    by (rule sanitize_spec) simp_all
  moreover have "spec_tool_name fb (i + 1) = take 64 fb"
    unfolding fb_def by (rule spec_tool_name_fallback)
  moreover have "''name'' \<notin> set (map fst (zip (map dec [0..<length xs]) xs))"
    using name_not_index[of "[0..<length xs]"] by (simp add: map_fst_zip del: set_map)
  then have "AList.update ''name'' v (zip (map dec [0..<length xs]) xs)
             = zip (map dec [0..<length xs]) xs @ [(''name'', v)]" for v
    by (rule update_new_last)
  ultimately show ?thesis
    unfolding repair_tool_def fb_def by (simp add: or_else_def)
qed

lemma repair_tool_total: "name_convertible t \<Longrightarrow> \<exists>t'. repair_tool rt i t = Inr t'"
proof (cases t)
  case (JObj fs)
  assume "name_convertible t"
  then show ?thesis using repair_tool_object[of fs rt i] JObj by auto
next
  case (JArr xs)
  then show ?thesis
    by (auto simp: repair_tool_def sanitizeToolName_def or_else_def Let_def)
qed (simp_all add: repair_tool_def)

lemma map_tools_pointwise:
  assumes "\<forall>t\<in>set ts. name_convertible t"
  shows "\<exists>ts'. map_tools rt i ts = Inr ts' \<and> length ts' = length ts \<and>
           (\<forall>j<length ts. repair_tool rt (i + j) (ts ! j) = Inr (ts' ! j))"
  using assms
proof (induction ts arbitrary: i)
  case Nil
  then show ?case by simp
next
  case (Cons t ts)
  obtain u where u: "repair_tool rt i t = Inr u"
    using Cons.prems repair_tool_total by (metis list.set_intros(1))
  obtain us where us: "map_tools rt (i + 1) ts = Inr us" "length us = length ts"
      "\<forall>j<length ts. repair_tool rt (i + 1 + j) (ts ! j) = Inr (us ! j)"
    using Cons.IH[of "i + 1"] Cons.prems by auto
  have "\<forall>j<length (t # ts). repair_tool rt (i + j) ((t # ts) ! j) = Inr ((u # us) ! j)"
  proof (intro allI impI)
    fix j assume "j < length (t # ts)"
    then show "repair_tool rt (i + j) ((t # ts) ! j) = Inr ((u # us) ! j)"
      using u us(3) by (cases j) auto
  qed
  then show ?case using u us(1,2) by simp
qed

text \<open>
  Claim C9, amended. A payload with no tool list is returned unchanged. In a payload with
  one, whose mapping-shaped descriptors have names that convert to a string, only the
  value of \<open>tools\<close> changes; the list keeps its length, and at each position:
  a mapping keeps its other fields, their values and their order, its name keeps its place
  (or is added last when there was none) and becomes the sanitized name: of the string
  it was, of the string its value converts to, or the positional fallback when it was
  absent or \<^verbatim>\<open>null\<close>; \<^verbatim>\<open>null\<close>, a boolean, a number and a string stay as they are; an
  array is treated as the mapping of its indices and gets the positional fallback as
  its name.
\<close>

theorem sanitizer_frame:
  "(\<not> isArray (get result ''tools'') \<longrightarrow> repairToolsInInitializeResult rt result = Inr result) \<and>
   (\<forall>kvs ts. result = JObj kvs \<and> map_of kvs ''tools'' = Some (JArr ts)
        \<and> (\<forall>t\<in>set ts. name_convertible t) \<longrightarrow>
      (\<exists>kvs' ts'. repairToolsInInitializeResult rt result = Inr (JObj kvs')
         \<and> map fst kvs' = map fst kvs
         \<and> (\<forall>k. k \<noteq> ''tools'' \<longrightarrow> map_of kvs' k = map_of kvs k)
         \<and> map_of kvs' ''tools'' = Some (JArr ts')
         \<and> length ts' = length ts
         \<and> (\<forall>i<length ts.
              (case ts ! i of
                 JObj fs \<Rightarrow>
                   (\<exists>n fs'. ts' ! i = JObj fs'
                      \<and> other_fields fs' = other_fields fs
                      \<and> map fst fs' = (if ''name'' \<in> set (map fst fs) then map fst fs
                                       else map fst fs @ [''name''])
                      \<and> map_of fs' ''name'' = Some (JStr n)
                      \<and> (case map_of fs ''name'' of
                            None \<Rightarrow> n = take 64 (''tool_'' @ dec (i + 1))
                          | Some JNull \<Rightarrow> n = take 64 (''tool_'' @ dec (i + 1))
                          | Some (JStr s) \<Rightarrow> n = spec_tool_name s (i + 1)
                          | Some v \<Rightarrow> (\<exists>s. js_String rt v = Inr s \<and> n = spec_tool_name s (i + 1))))
               | JArr xs \<Rightarrow>
                   ts' ! i = JObj (zip (map dec [0..<length xs]) xs
                                   @ [(''name'', JStr (take 64 (''tool_'' @ dec (i + 1))))])
               | t \<Rightarrow> ts' ! i = t))))"
proof (intro conjI impI allI)
  assume "\<not> isArray (get result ''tools'')"
  then show "repairToolsInInitializeResult rt result = Inr result"
    by (simp add: repairToolsInInitializeResult_def)
next
  fix kvs ts
  assume a: "result = JObj kvs \<and> map_of kvs ''tools'' = Some (JArr ts)
        \<and> (\<forall>t\<in>set ts. name_convertible t)"
  then obtain ts' where m: "map_tools rt 0 ts = Inr ts'" and len: "length ts' = length ts"
    and pt: "\<forall>j<length ts. repair_tool rt (0 + j) (ts ! j) = Inr (ts' ! j)"
    using map_tools_pointwise[of ts rt 0] by blast
  have key: "''tools'' \<in> set (map fst kvs)"
    using a by (metis domI dom_map_of_conv_image_fst set_map)
  have r: "repairToolsInInitializeResult rt result = Inr (JObj (AList.update ''tools'' (JArr ts') kvs))"
    using a m by (simp add: repairToolsInInitializeResult_def)
  have each: "\<forall>i<length ts.
      (case ts ! i of
         JObj fs \<Rightarrow>
           (\<exists>n fs'. ts' ! i = JObj fs'
              \<and> other_fields fs' = other_fields fs
              \<and> map fst fs' = (if ''name'' \<in> set (map fst fs) then map fst fs
                               else map fst fs @ [''name''])
              \<and> map_of fs' ''name'' = Some (JStr n)
              \<and> (case map_of fs ''name'' of
                    None \<Rightarrow> n = take 64 (''tool_'' @ dec (i + 1))
                  | Some JNull \<Rightarrow> n = take 64 (''tool_'' @ dec (i + 1))
                  | Some (JStr s) \<Rightarrow> n = spec_tool_name s (i + 1)
                  | Some v \<Rightarrow> (\<exists>s. js_String rt v = Inr s \<and> n = spec_tool_name s (i + 1))))
       | JArr xs \<Rightarrow>
           ts' ! i = JObj (zip (map dec [0..<length xs]) xs
                           @ [(''name'', JStr (take 64 (''tool_'' @ dec (i + 1))))])
       | t \<Rightarrow> ts' ! i = t)"
  proof (intro allI impI)
    fix i assume i: "i < length ts"
    then have rt_i: "repair_tool rt i (ts ! i) = Inr (ts' ! i)" using pt by simp
    have conv: "name_convertible (ts ! i)" using a i by simp
    have prim: "ts' ! i = ts ! i" if "\<not> truthy (ts ! i) \<or> \<not> typeof_object (ts ! i)"
      using rt_i repair_tool_primitive[OF that, of rt i] by simp
    show "(case ts ! i of
         JObj fs \<Rightarrow>
           (\<exists>n fs'. ts' ! i = JObj fs'
              \<and> other_fields fs' = other_fields fs
              \<and> map fst fs' = (if ''name'' \<in> set (map fst fs) then map fst fs
                               else map fst fs @ [''name''])
              \<and> map_of fs' ''name'' = Some (JStr n)
              \<and> (case map_of fs ''name'' of
                    None \<Rightarrow> n = take 64 (''tool_'' @ dec (i + 1))
                  | Some JNull \<Rightarrow> n = take 64 (''tool_'' @ dec (i + 1))
                  | Some (JStr s) \<Rightarrow> n = spec_tool_name s (i + 1)
                  | Some v \<Rightarrow> (\<exists>s. js_String rt v = Inr s \<and> n = spec_tool_name s (i + 1))))
       | JArr xs \<Rightarrow>
           ts' ! i = JObj (zip (map dec [0..<length xs]) xs
                           @ [(''name'', JStr (take 64 (''tool_'' @ dec (i + 1))))])
       | t \<Rightarrow> ts' ! i = t)"
    proof (cases "ts ! i")
      case (JObj fs)
      obtain n where n: "repair_tool rt i (JObj fs) = Inr (JObj (AList.update ''name'' (JStr n) fs))"
        and nm: "(case map_of fs ''name'' of
                None \<Rightarrow> n = take 64 (''tool_'' @ dec (i + 1))
              | Some JNull \<Rightarrow> n = take 64 (''tool_'' @ dec (i + 1))
              | Some v \<Rightarrow> \<exists>s. js_String rt v = Inr s \<and> n = spec_tool_name s (i + 1))"
        using repair_tool_object[of fs rt i] conv JObj by auto
      have eq: "ts' ! i = JObj (AList.update ''name'' (JStr n) fs)"
        using rt_i n JObj by simp
      have nm': "(case map_of fs ''name'' of
                    None \<Rightarrow> n = take 64 (''tool_'' @ dec (i + 1))
                  | Some JNull \<Rightarrow> n = take 64 (''tool_'' @ dec (i + 1))
                  | Some (JStr s) \<Rightarrow> n = spec_tool_name s (i + 1)
                  | Some v \<Rightarrow> (\<exists>s. js_String rt v = Inr s \<and> n = spec_tool_name s (i + 1)))"
      proof (cases "map_of fs ''name''")
        case None
        then show ?thesis using nm by simp
      next
        case (Some v)
        show ?thesis
        proof (cases v)
          case (JStr s)
          then show ?thesis using nm Some by auto
        qed (use nm Some in \<open>simp_all only: option.case json.case\<close>)
      qed
      show ?thesis
        unfolding JObj json.case
        by (rule exI[of _ n], rule exI[of _ "AList.update ''name'' (JStr n) fs"])
           (use eq nm' in \<open>simp add: other_fields_def filter_update_other keys_update map_of_update_same\<close>)
    next
      case (JArr xs)
      then show ?thesis using rt_i by (simp add: repair_tool_array)
    next
      case JNull
      then show ?thesis using prim by simp
    next
      case (JBool b)
      then show ?thesis using prim by simp
    next
      case (JNum x)
      then show ?thesis using prim by simp
    next
      case (JStr x)
      then show ?thesis using prim by simp
    qed
  qed
  show "\<exists>kvs' ts'. repairToolsInInitializeResult rt result = Inr (JObj kvs')
         \<and> map fst kvs' = map fst kvs
         \<and> (\<forall>k. k \<noteq> ''tools'' \<longrightarrow> map_of kvs' k = map_of kvs k)
         \<and> map_of kvs' ''tools'' = Some (JArr ts')
         \<and> length ts' = length ts
         \<and> (\<forall>i<length ts.
              (case ts ! i of
                 JObj fs \<Rightarrow>
                   (\<exists>n fs'. ts' ! i = JObj fs'
                      \<and> other_fields fs' = other_fields fs
                      \<and> map fst fs' = (if ''name'' \<in> set (map fst fs) then map fst fs
                                       else map fst fs @ [''name''])
                      \<and> map_of fs' ''name'' = Some (JStr n)
                      \<and> (case map_of fs ''name'' of
                            None \<Rightarrow> n = take 64 (''tool_'' @ dec (i + 1))
                          | Some JNull \<Rightarrow> n = take 64 (''tool_'' @ dec (i + 1))
                          | Some (JStr s) \<Rightarrow> n = spec_tool_name s (i + 1)
                          | Some v \<Rightarrow> (\<exists>s. js_String rt v = Inr s \<and> n = spec_tool_name s (i + 1))))
               | JArr xs \<Rightarrow>
                   ts' ! i = JObj (zip (map dec [0..<length xs]) xs
                                   @ [(''name'', JStr (take 64 (''tool_'' @ dec (i + 1))))])
               | t \<Rightarrow> ts' ! i = t))"
    by (rule exI[of _ "AList.update ''tools'' (JArr ts') kvs"], rule exI[of _ ts'])
       (use r len each key in \<open>simp add: keys_update map_of_update_same update_conv'\<close>)
qed

text \<open>
  A list of two mappings and a \<^verbatim>\<open>null\<close>, in a result with another field.
\<close>

theorem sanitizer_frame_witness:
  "list_all name_convertible
     [JObj [(''name'', JStr ''My Tool!!''), (''description'', JStr ''d'')], JObj [(''name'', JStr '''')], JNull]
   \<and> repairToolsInInitializeResult example_rt
        (JObj [(''tools'', JArr [JObj [(''name'', JStr ''My Tool!!''), (''description'', JStr ''d'')],
                                JObj [(''name'', JStr '''')], JNull]),
               (''nextCursor'', JStr ''c'')])
       = Inr (JObj [(''tools'', JArr [JObj [(''name'', JStr ''My_Tool__''), (''description'', JStr ''d'')],
                                     JObj [(''name'', JStr ''tool_2'')], JNull]),
                    (''nextCursor'', JStr ''c'')])"
proof -
  have conv: "list_all name_convertible
     [JObj [(''name'', JStr ''My Tool!!''), (''description'', JStr ''d'')], JObj [(''name'', JStr '''')], JNull]"
    by (simp add: name_convertible_def)
  have run: "repairToolsInInitializeResult example_rt
        (JObj [(''tools'', JArr [JObj [(''name'', JStr ''My Tool!!''), (''description'', JStr ''d'')],
                                JObj [(''name'', JStr '''')], JNull]),
               (''nextCursor'', JStr ''c'')])
       = Inr (JObj [(''tools'', JArr [JObj [(''name'', JStr ''My_Tool__''), (''description'', JStr ''d'')],
                                     JObj [(''name'', JStr ''tool_2'')], JNull]),
                    (''nextCursor'', JStr ''c'')])"
    by (simp add: repairToolsInInitializeResult_def repair_tool_def sanitizeToolName_def or_else_def
          name_char_def dec.simps)
  show ?thesis
    using sanitizer_frame[of "JObj [(''tools'', JArr [JObj [(''name'', JStr ''My Tool!!''), (''description'', JStr ''d'')],
                                JObj [(''name'', JStr '''')], JNull]),
               (''nextCursor'', JStr ''c'')]" example_rt] conv run
    by simp
qed

text \<open>
  Claim C9 as stated fails on a descriptor that is not a mapping but an array: it passes
  the test \<^verbatim>\<open>typeof t !== 'object'\<close> and is not returned unchanged.
\<close>

theorem array_descriptor_rewritten:
  "repairToolsInInitializeResult example_rt (JObj [(''tools'', JArr [JArr [JStr ''a'']])])
     = Inr (JObj [(''tools'', JArr [JObj [(''0'', JStr ''a''), (''name'', JStr ''tool_1'')]])])"
  by (simp add: repairToolsInInitializeResult_def repair_tool_def sanitizeToolName_def or_else_def
        name_char_def dec.simps)

section \<open>The frames written\<close>

lemma sendResponse_result:
  "sendResponse (JObj [(''jsonrpc'', JStr ''2.0''), (''id'', i), (''result'', b)])
     = Stdout (JObj [(''jsonrpc'', JStr ''2.0''), (''id'', wire i), (''result'', wire b)])"
  by (simp add: sendResponse_def)

lemma sendResponse_error:
  "sendResponse (JObj [(''jsonrpc'', JStr ''2.0''), (''id'', i), (''error'', b)])
     = Stdout (JObj [(''jsonrpc'', JStr ''2.0''), (''id'', wire i), (''error'', wire b)])"
  by (simp add: sendResponse_def)

lemma makeError_shape:
  "\<exists>b. makeError (Some i) c m d = JObj [(''jsonrpc'', JStr ''2.0''), (''id'', i), (''error'', b)]"
  by (simp add: makeError_def or_else_self Let_def)

lemma coerce_shape:
  assumes "coerceToValidResponseForClient rt resp fid = (fx, Inr safe)"
  shows "\<exists>b. safe = JObj [(''jsonrpc'', JStr ''2.0''),
                           (''id'', if payload_answers resp then or_else (get resp ''id'') fid else fid),
                           (''result'', b)]
            \<or> safe = JObj [(''jsonrpc'', JStr ''2.0''),
                           (''id'', if payload_answers resp then or_else (get resp ''id'') fid else fid),
                           (''error'', b)]"
proof -
  let ?i = "or_else (get resp ''id'') (or_else (Some fid) JNull)"
  consider (notif) "\<not> payload_answers resp"
      "safe = JObj [(''jsonrpc'', JStr ''2.0''), (''id'', fid), (''result'', JObj [(''ok'', JBool True)])]"
    | (err) c m where "\<not> payload_answers resp" "safe = makeError (Some fid) c m None"
    | (nerr) b where "payload_answers resp"
        "safe = JObj [(''jsonrpc'', JStr ''2.0''), (''id'', ?i), (''error'', b)]"
    | (res) b where "payload_answers resp"
        "safe = JObj [(''jsonrpc'', JStr ''2.0''), (''id'', ?i), (''result'', b)]"
    using assms
    by (cases resp)
       (auto simp: coerceToValidResponseForClient_def payload_answers_def Let_def or_else_self
             has_key_get
             simp del: has_key.simps(1) split: if_splits sum.splits option.splits)
  then show ?thesis
  proof cases
    case notif
    then show ?thesis by simp
  next
    case err
    then show ?thesis using makeError_shape[of fid c m None] by auto
  next
    case nerr
    then show ?thesis by (simp add: or_else_self)
  next
    case res
    then show ?thesis by (simp add: or_else_self)
  qed
qed

lemma coerce_effects:
  assumes "coerceToValidResponseForClient rt resp fid = (fx, r)"
  shows "fx = [] \<or> (\<exists>f. fx = [Stdout f] \<and> is_notification f)"
  using assms
  by (auto simp: coerceToValidResponseForClient_def Let_def sendNotification_def is_notification_def
           split: if_splits sum.splits)

lemma is_response_result: "is_response i (JObj [(''jsonrpc'', JStr ''2.0''), (''id'', i), (''result'', b)])"
  by (simp add: is_response_def)

lemma is_response_error: "is_response i (JObj [(''jsonrpc'', JStr ''2.0''), (''id'', i), (''error'', b)])"
  by (simp add: is_response_def)

lemma sendResponse_local:
  "\<exists>b. sendResponse (localInitializeSuccess i)
         = Stdout (JObj [(''jsonrpc'', JStr ''2.0''), (''id'', wire i), (''result'', b)])"
  by (simp add: localInitializeSuccess_def sendResponse_result)

lemma payload_answers_set_result:
  assumes "has_key v ''result''"
  shows "payload_answers (set_prop v ''result'' x) = payload_answers v"
proof -
  have "truthy (set_prop v ''result'' x) = truthy v"
    and "typeof_object (set_prop v ''result'' x) = typeof_object v"
    by (cases v; simp)+
  then show ?thesis
    unfolding payload_answers_def
    by (simp add: has_key_set_prop[OF assms] get_set_prop_other del: has_key.simps)
qed

lemma respond_frames:
  assumes "f \<in> set (stdout_of (fst (respond msg flag (coerceToValidResponseForClient rt resp rid))))"
  shows "is_notification f
         \<or> is_response (wire (if payload_answers resp then or_else (get resp ''id'') rid else rid)) f"
proof -
  let ?i = "if payload_answers resp then or_else (get resp ''id'') rid else rid"
  obtain fx r where c: "coerceToValidResponseForClient rt resp rid = (fx, r)"
    by (cases "coerceToValidResponseForClient rt resp rid") auto
  have fx: "\<forall>g\<in>set (stdout_of fx). is_notification g"
    using coerce_effects[OF c] by auto
  show ?thesis
  proof (cases r)
    case (Inl e)
    then show ?thesis using assms c fx by (simp add: respond_def)
  next
    case (Inr safe)
    then obtain b where
      safe: "safe = JObj [(''jsonrpc'', JStr ''2.0''), (''id'', ?i), (''result'', b)]
             \<or> safe = JObj [(''jsonrpc'', JStr ''2.0''), (''id'', ?i), (''error'', b)]"
      using coerce_shape c by blast
    then obtain w where w: "sendResponse safe = Stdout w" "is_response (wire ?i) w"
      using sendResponse_result[of ?i b] sendResponse_error[of ?i b]
        is_response_result is_response_error by metis
    then have "f \<in> set (stdout_of fx) \<or> f = w"
      using assms c Inr by (auto simp: respond_def stdout_of_append)
    then show ?thesis using fx w by auto
  qed
qed

lemma handle_initialize_frames:
  assumes "f \<in> set (stdout_of (fst (handle_initialize rt net msg rid)))"
    and "remote = forwardToRemote rt (net (wire msg)) rid"
  shows "is_notification f
         \<or> is_response (wire (if payload_answers remote \<and> truthy_opt (get remote ''result'')
                              then or_else (get remote ''id'') rid else rid)) f"
proof -
  obtain b where loc: "sendResponse (localInitializeSuccess rid)
         = Stdout (JObj [(''jsonrpc'', JStr ''2.0''), (''id'', wire rid), (''result'', b)])"
    using sendResponse_local by blast
  consider (res) "truthy remote \<and> truthy_opt (get remote ''result'')"
    | (err) "\<not> (truthy remote \<and> truthy_opt (get remote ''result''))"
            "truthy remote \<and> truthy_opt (get remote ''error'')"
    | (fallback) "\<not> (truthy remote \<and> truthy_opt (get remote ''result''))"
            "\<not> (truthy remote \<and> truthy_opt (get remote ''error''))"
    by blast
  then show ?thesis
  proof cases
    case res
    show ?thesis
    proof (cases "repairToolsInInitializeResult rt (value_of (get remote ''result''))")
      case (Inl e)
      then show ?thesis using assms res by (simp add: handle_initialize_def Let_def)
    next
      case (Inr r)
      then have "f \<in> set (stdout_of (fst (respond msg True
                  (coerceToValidResponseForClient rt (set_prop remote ''result'' r) rid))))"
        using assms res by (simp add: handle_initialize_def Let_def)
      from respond_frames[OF this] show ?thesis
        using res
        by (auto simp: get_set_prop_other payload_answers_set_result truthy_has_key
              simp del: has_key.simps split: if_splits)
    qed
  next
    case err
    then have nores: "\<not> truthy_opt (get remote ''result'') \<or> \<not> payload_answers remote"
      by (auto simp: payload_answers_def)
    have "f = JObj [(''jsonrpc'', JStr ''2.0''), (''id'', wire rid), (''result'', b)] \<or> is_notification f"
      using assms err loc
      by (auto simp: handle_initialize_def Let_def sendNotification_def is_notification_def
               stdout_of_append split: sum.splits)
    then show ?thesis using is_response_result nores by auto
  next
    case fallback
    then have nores: "\<not> truthy_opt (get remote ''result'') \<or> \<not> payload_answers remote"
      by (auto simp: payload_answers_def)
    have "f = JObj [(''jsonrpc'', JStr ''2.0''), (''id'', wire rid), (''result'', b)]"
      using assms fallback loc by (auto simp: handle_initialize_def Let_def)
    then show ?thesis using is_response_result nores by auto
  qed
qed

lemma sanitize_remote_frame:
  assumes "sanitize_remote rt remote = Inr remote'"
  shows "get remote' ''id'' = get remote ''id'' \<and> payload_answers remote' = payload_answers remote"
proof (cases "truthy remote \<and> truthy_opt (get remote ''result'')
              \<and> isArray (get (value_of (get remote ''result'')) ''tools'')")
  case False
  then have "remote' = remote" using assms by (auto simp: sanitize_remote_def)
  then show ?thesis by simp
next
  case True
  then obtain r where "remote' = set_prop remote ''result'' r"
    using assms by (auto simp: sanitize_remote_def split: sum.splits)
  then show ?thesis
    using True by (simp add: get_set_prop_other payload_answers_set_result truthy_has_key
                     del: has_key.simps)
qed

lemma handle_other_frames:
  assumes "f \<in> set (stdout_of (fst (handle_other rt net flag msg rid)))"
    and "remote = forwardToRemote rt (net (wire msg)) rid"
  shows "is_notification f
         \<or> is_response (wire (if payload_answers remote then or_else (get remote ''id'') rid
                              else rid)) f"
proof (cases "sanitize_remote rt remote")
  case (Inl e)
  then show ?thesis using assms by (simp add: handle_other_def)
next
  case (Inr remote')
  then have "f \<in> set (stdout_of (fst (respond msg flag
                  (coerceToValidResponseForClient rt remote' rid))))"
    using assms by (simp add: handle_other_def)
  from respond_frames[OF this] show ?thesis
    using sanitize_remote_frame[OF Inr] by (auto split: if_splits)
qed

lemma stdout_on_line:
  "stdout_of (fst (on_line rt net flag line)) = stdout_of (fst (handleMessage rt net flag line))"
  by (cases "handleMessage rt net flag line" rule: prod_cases3)
     (auto simp: on_line_def stdout_of_append split: sum.splits)

text \<open>
  Claim C1, amended. A line that does not decode writes nothing. Every object written for
  a line that decodes is a notification (version tag, method, params, no identifier), or
  a response (version tag, identifier, exactly one of result and error, nothing else).
  The identifier of the response is \<open>addressed_to\<close>, as \<^verbatim>\<open>JSON.stringify\<close> writes it: the
  remote payload's own identifier when the response reconciles a payload that has a result,
  an error, a message or a status and an identifier that is not \<^verbatim>\<open>null\<close>; the request's
  identifier (\<^verbatim>\<open>null\<close> when it has none) in every other case: the invalid-request error,
  the local initialize success, the placeholder after a notification and the two internal
  errors. (An error of the remote invoker is a payload that carries the request's
  identifier.)
\<close>

theorem outbound_frames:
  "(case JSON_parse rt line of
      None \<Rightarrow> stdout_of (fst (on_line rt net flag line)) = []
    | Some msg \<Rightarrow>
        (\<forall>f\<in>set (stdout_of (fst (on_line rt net flag line))).
           is_notification f
           \<or> is_response
                (wire (addressed_to msg
                         (forwardToRemote rt (net (wire msg)) (or_else (get msg ''id'') JNull))))
                f))"
proof (cases "JSON_parse rt line")
  case None
  then show ?thesis by (simp add: stdout_on_line handleMessage_def)
next
  case (Some msg)
  let ?rid = "or_else (get msg ''id'') JNull"
  let ?remote = "forwardToRemote rt (net (wire msg)) ?rid"
  have "is_notification f \<or> is_response (wire (addressed_to msg ?remote)) f"
    if f: "f \<in> set (stdout_of (fst (handleMessage rt net flag line)))" for f
  proof -
    have live: "line \<noteq> [] \<and> trim line \<noteq> [] \<and> msg \<noteq> JNull"
      using f Some by (auto simp: handleMessage_def get_prop_def split: if_splits)
    show ?thesis
    proof (cases "\<not> is_string (get msg ''method'') \<or> \<not> truthy_opt (get msg ''method'')")
      case True
      obtain b where "makeError (Some ?rid) (- 32600) ''Invalid Request: missing method'' None
            = JObj [(''jsonrpc'', JStr ''2.0''), (''id'', ?rid), (''error'', b)]"
        using makeError_shape by blast
      then have "f = JObj [(''jsonrpc'', JStr ''2.0''), (''id'', wire ?rid), (''error'', wire b)]"
        using f Some live True
        by (auto simp: handleMessage_def get_prop_def Let_def sendResponse_error)
      moreover have "addressed_to msg ?remote = ?rid"
        using True by (auto simp: addressed_to_def)
      ultimately show ?thesis using is_response_error by auto
    next
      case False
      show ?thesis
      proof (cases "get msg ''method'' = Some (JStr ''initialize'')")
        case True
        then have "f \<in> set (stdout_of (fst (handle_initialize rt net msg ?rid)))"
          using f Some live False by (simp add: handleMessage_def get_prop_def Let_def)
        from handle_initialize_frames[OF this refl] show ?thesis
          using True False by (auto simp: addressed_to_def)
      next
        case ni: False
        then have "f \<in> set (stdout_of (fst (handle_other rt net flag msg ?rid)))"
          using f Some live False by (simp add: handleMessage_def get_prop_def Let_def)
        from handle_other_frames[OF this refl] show ?thesis
          using ni False by (auto simp: addressed_to_def)
      qed
    qed
  qed
  then show ?thesis using Some by (simp add: stdout_on_line)
qed

text \<open>
  The round trip of the specification: the remote payload \<^verbatim>\<open>{id: 7, result: {x: 1}}\<close>.
\<close>

lemma roundtrip: "on_line example_rt (json_reply body_ok) False req_list
  = ([Post (JObj [(''jsonrpc'', JStr ''2.0''), (''id'', JNum (Fin 7)), (''method'', JStr ''tools/list'')]),
      Stdout (JObj [(''jsonrpc'', JStr ''2.0''), (''id'', JNum (Fin 7)), (''result'', JObj [(''x'', JNum (Fin 1))])])], False)"
proof -
  have ne: "req_list \<noteq> []" by (simp add: req_list_def)
  have remote: "forwardToRemote example_rt (json_reply body_ok m) (JNum (Fin 7))
      = JObj [(''id'', JNum (Fin 7)), (''result'', JObj [(''x'', JNum (Fin 1))])]" for m
    by (simp add: forwardToRemote_def json_reply_def decode_body_def ct_json parse_body_ok)
  show ?thesis
    by (simp add: on_line_def handleMessage_def ne trim_req_list parse_req_list get_prop_def
         or_else_def truthy_opt_def handle_other_def remote sanitize_remote_def respond_def
         coerceToValidResponseForClient_def sendResponse_def Let_def)
qed

text \<open>
  On the round trip the one frame written is the response addressed to 7, the identifier
  of the request and of the payload.
\<close>

theorem outbound_frames_witness:
  "stdout_of (fst (on_line example_rt (json_reply body_ok) False req_list))
     = [JObj [(''jsonrpc'', JStr ''2.0''), (''id'', JNum (Fin 7)), (''result'', JObj [(''x'', JNum (Fin 1))])]]
   \<and> addressed_to
        (JObj [(''jsonrpc'', JStr ''2.0''), (''id'', JNum (Fin 7)), (''method'', JStr ''tools/list'')])
        (JObj [(''id'', JNum (Fin 7)), (''result'', JObj [(''x'', JNum (Fin 1))])])
       = JNum (Fin 7)
   \<and> is_response (JNum (Fin 7))
        (JObj [(''jsonrpc'', JStr ''2.0''), (''id'', JNum (Fin 7)), (''result'', JObj [(''x'', JNum (Fin 1))])])"
  using outbound_frames[where rt = example_rt and line = req_list and net = "json_reply body_ok"
          and flag = False]
  by (simp add: roundtrip is_response_def addressed_to_def payload_answers_def truthy_opt_def
        or_else_def)

text \<open>
  Claim C1 as stated fails: to the request 7 the remote answers a result with the
  identifier 99, and the response written carries 99.
\<close>

theorem response_takes_remote_id:
  "or_else (get (JObj [(''jsonrpc'', JStr ''2.0''), (''id'', JNum (Fin 7)), (''method'', JStr ''tools/list'')]) ''id'') JNull
     = JNum (Fin 7)
   \<and> on_line example_rt (json_reply body_other_id) False req_list
     = ([Post (JObj [(''jsonrpc'', JStr ''2.0''), (''id'', JNum (Fin 7)), (''method'', JStr ''tools/list'')]),
         Stdout (JObj [(''jsonrpc'', JStr ''2.0''), (''id'', JNum (Fin 99)), (''result'', JObj [])])], False)
   \<and> \<not> is_response (JNum (Fin 7))
         (JObj [(''jsonrpc'', JStr ''2.0''), (''id'', JNum (Fin 99)), (''result'', JObj [])])
   \<and> \<not> is_notification (JObj [(''jsonrpc'', JStr ''2.0''), (''id'', JNum (Fin 99)), (''result'', JObj [])])"
  by (simp add: on_line_def handleMessage_def req_list_nonblank parse_req_list get_prop_def
        or_else_def truthy_opt_def handle_other_def forward_json[OF parse_body_other_id]
        sanitize_remote_def respond_def coerceToValidResponseForClient_def sendResponse_def Let_def
        is_response_def is_notification_def)

text \<open>
  The request's identifier is kept where the payload is not reconciled: a payload that is
  only \<^verbatim>\<open>{id: 99}\<close> gets the internal error addressed to 7, and an \<^verbatim>\<open>initialize\<close>
  answered by an error with the identifier 99 gets the local success addressed to 7.
\<close>

lemma bare_payload_answered_to_request:
  "on_line example_rt (json_reply body_only_id) False req_list
     = ([Post (JObj [(''jsonrpc'', JStr ''2.0''), (''id'', JNum (Fin 7)), (''method'', JStr ''tools/list'')]),
         Stdout (JObj [(''jsonrpc'', JStr ''2.0''), (''id'', JNum (Fin 7)),
                       (''error'', JObj [(''code'', JNum (Fin (- 32603))),
                                        (''message'', JStr ''Remote missing result and error'')])])],
        False)"
  by (simp add: on_line_def handleMessage_def req_list_nonblank parse_req_list get_prop_def
        or_else_def truthy_opt_def handle_other_def forward_json[OF parse_body_only_id]
        sanitize_remote_def respond_def coerceToValidResponseForClient_def makeError_def
        sendResponse_def Let_def)

lemma failed_initialize_answered_to_request:
  "stdout_of (fst (on_line example_rt (json_reply body_error_99) False req_init))
     = [JObj [(''jsonrpc'', JStr ''2.0''),
              (''id'', JNum (Fin 7)),
              (''result'',
               JObj [(''protocolVersion'', JStr ''2024-11-05''),
                     (''serverInfo'',
                      JObj [(''name'', JStr ''dify-mcp-bridge''), (''version'', JStr ''1.0.0'')]),
                     (''capabilities'', JObj []),
                     (''tools'', JArr [])])],
        JObj [(''jsonrpc'', JStr ''2.0''),
              (''method'', JStr ''notifications/message''),
              (''params'',
               JObj [(''level'', JStr ''warning''),
                     (''message'', JStr ''dify-bridge: remote initialize failed (boom)'')])]]"
  by (simp add: on_line_def handleMessage_def req_init_nonblank parse_req_init get_prop_def
        or_else_def truthy_opt_def handle_initialize_def forward_json[OF parse_body_error_99]
        localInitializeSuccess_def sendResponse_def sendNotification_def Let_def)

section \<open>Notifications from the remote\<close>

lemma repair_total:
  assumes "map_of rk ''tools'' = Some (JArr ts)" and "\<forall>t\<in>set ts. name_convertible t"
  shows "\<exists>ts'. repairToolsInInitializeResult rt (JObj rk)
                 = Inr (JObj (AList.update ''tools'' (JArr ts') rk))"
proof -
  obtain ts' where "map_tools rt 0 ts = Inr ts'"
    using map_tools_pointwise[OF assms(2), of rt 0] by blast
  then show ?thesis
    using assms(1) by (auto simp: repairToolsInInitializeResult_def)
qed

lemma sanitize_remote_total:
  assumes "tools_convertible (JObj kvs)"
  shows "\<exists>kvs'. sanitize_remote rt (JObj kvs) = Inr (JObj kvs') \<and> map fst kvs' = map fst kvs
               \<and> (\<forall>k. k \<noteq> ''result'' \<longrightarrow> map_of kvs' k = map_of kvs k)"
proof (cases "truthy_opt (get (JObj kvs) ''result'')
              \<and> isArray (get (value_of (get (JObj kvs) ''result'')) ''tools'')")
  case False
  then have "sanitize_remote rt (JObj kvs) = Inr (JObj kvs)"
    by (auto simp: sanitize_remote_def)
  then show ?thesis by simp
next
  case True
  then obtain r where r: "map_of kvs ''result'' = Some r"
    by (cases "map_of kvs ''result''") (auto simp: truthy_opt_def)
  then obtain ts where ts: "get r ''tools'' = Some (JArr ts)"
    using True by (cases "get r ''tools''" rule: isArray.cases) auto
  then obtain rk where rk: "r = JObj rk" by (cases r) auto
  have "\<forall>t\<in>set ts. name_convertible t"
    using assms r ts by (simp add: tools_convertible_def list_all_iff)
  then obtain ts' where "repairToolsInInitializeResult rt (JObj rk)
                 = Inr (JObj (AList.update ''tools'' (JArr ts') rk))"
    using repair_total[of rk ts rt] ts rk by auto
  then have "sanitize_remote rt (JObj kvs)
      = Inr (JObj (AList.update ''result'' (JObj (AList.update ''tools'' (JArr ts') rk)) kvs))"
    using True r rk by (simp add: sanitize_remote_def)
  moreover have "''result'' \<in> set (map fst kvs)"
    using r by (metis domI dom_map_of_conv_image_fst set_map)
  ultimately show ?thesis
    by (simp add: keys_update update_conv')
qed

lemma update_same: "map_of al k = Some v \<Longrightarrow> AList.update k v al = al"
  by (induction al) (auto split: if_splits)

lemma sanitize_remote_initialize:
  assumes "truthy remote" and "truthy_opt (get remote ''result'')"
  shows "(case repairToolsInInitializeResult rt (value_of (get remote ''result'')) of
            Inl e \<Rightarrow> Inl e
          | Inr r \<Rightarrow> Inr (set_prop remote ''result'' r))
         = sanitize_remote rt remote"
proof (cases "isArray (get (value_of (get remote ''result'')) ''tools'')")
  case True
  then show ?thesis using assms by (simp add: sanitize_remote_def)
next
  case False
  obtain kvs r where "remote = JObj kvs" and "map_of kvs ''result'' = Some r"
    using assms(2) by (cases remote; cases "get remote ''result''") (auto simp: truthy_opt_def)
  then show ?thesis
    using False assms
    by (simp add: sanitize_remote_def repairToolsInInitializeResult_def update_same)
qed

text \<open>
  Claim C2, amended. When the decoded remote payload is a mapping with a method field and
  no identifier field (and the names of its tool list, if it has one, convert to
  strings), and the request is not an \<^verbatim>\<open>initialize\<close> to which the payload brings no truthy
  result, exactly two lines are written, in this order: a notification with the payload's
  method when that is a string and \<^verbatim>\<open>remote/notification\<close> otherwise, and with the
  payload's params when they are a mapping or an array and the empty mapping otherwise;
  then the success response \<^verbatim>\<open>{ok: true}\<close> addressed to the request's identifier.
\<close>

theorem remote_notification_relayed:
  assumes "trim line \<noteq> []" and "JSON_parse rt line = Some msg"
    and "get msg ''method'' = Some (JStr m)" and "m \<noteq> []"
    and "m = ''initialize'' \<longrightarrow> truthy_opt (map_of kvs ''result'')"
    and "forwardToRemote rt (net (wire msg)) (or_else (get msg ''id'') JNull) = JObj kvs"
    and "''method'' \<in> set (map fst kvs)" and "''id'' \<notin> set (map fst kvs)"
    and "tools_convertible (JObj kvs)"
  shows "stdout_of (fst (on_line rt net flag line))
         = [JObj [(''jsonrpc'', JStr ''2.0''),
                  (''method'', JStr (case map_of kvs ''method'' of
                                       Some (JStr s) \<Rightarrow> s
                                     | _ \<Rightarrow> ''remote/notification'')),
                  (''params'', wire (case map_of kvs ''params'' of
                                        Some (JObj p) \<Rightarrow> JObj p
                                      | Some (JArr a) \<Rightarrow> JArr a
                                      | _ \<Rightarrow> JObj []))],
            JObj [(''jsonrpc'', JStr ''2.0''),
                  (''id'', wire (or_else (get msg ''id'') JNull)),
                  (''result'', JObj [(''ok'', JBool True)])]]"
proof -
  let ?rid = "or_else (get msg ''id'') JNull"
  have line: "line \<noteq> []" using assms(1) trim_Nil by auto
  have msg: "msg \<noteq> JNull" using assms(3) by auto
  have hm: "handleMessage rt net flag line
              = (if m = ''initialize'' then handle_initialize rt net msg ?rid
                 else handle_other rt net flag msg ?rid)"
    using assms(1-4) line msg
    by (simp add: handleMessage_def get_prop_def Let_def truthy_opt_def)
  obtain kvs' where s: "sanitize_remote rt (JObj kvs) = Inr (JObj kvs')"
    and keys: "map fst kvs' = map fst kvs"
    and same: "\<forall>k. k \<noteq> ''result'' \<longrightarrow> map_of kvs' k = map_of kvs k"
    using sanitize_remote_total[OF assms(9)] by blast
  have meth: "map_of kvs' ''method'' = map_of kvs ''method''"
    and par: "map_of kvs' ''params'' = map_of kvs ''params''"
    using same by simp_all
  have c: "coerceToValidResponseForClient rt (JObj kvs') ?rid
      = ([Stdout (JObj [(''jsonrpc'', JStr ''2.0''),
                  (''method'', JStr (case map_of kvs ''method'' of
                                       Some (JStr s) \<Rightarrow> s
                                     | _ \<Rightarrow> ''remote/notification'')),
                  (''params'', wire (case map_of kvs ''params'' of
                                        Some (JObj p) \<Rightarrow> JObj p
                                      | Some (JArr a) \<Rightarrow> JArr a
                                      | _ \<Rightarrow> JObj []))])],
         Inr (JObj [(''jsonrpc'', JStr ''2.0''), (''id'', ?rid),
                    (''result'', JObj [(''ok'', JBool True)])]))"
  proof -
    have branch: "truthy (JObj kvs') \<and> typeof_object (JObj kvs') \<and> has_key (JObj kvs') ''method''
                  \<and> \<not> has_key (JObj kvs') ''id''"
      using assms(7,8) keys by simp
    show ?thesis
      unfolding coerceToValidResponseForClient_def
      using branch
      by (auto simp: Let_def sendNotification_def meth par or_else_self truthy_opt_def
            typeof_object_opt_def or_else_def
          simp del: has_key.simps split: option.splits json.splits)
  qed
  have other: "handle_other rt net flag msg ?rid
      = respond msg flag (coerceToValidResponseForClient rt (JObj kvs') ?rid)"
    using assms(6) s by (simp add: handle_other_def)
  have init: "handle_initialize rt net msg ?rid
      = respond msg True (coerceToValidResponseForClient rt (JObj kvs') ?rid)"
    if "truthy_opt (map_of kvs ''result'')"
    using that assms(6) s sanitize_remote_initialize[of "JObj kvs" rt]
    by (simp add: handle_initialize_def Let_def split: sum.splits)
  show ?thesis
    using assms(5) other init
    by (auto simp: stdout_on_line hm c respond_def sendResponse_result)
qed

text \<open>
  The notification of the specification, \<^verbatim>\<open>{method: "log", params: {level: "info"}}\<close>,
  as the answer to a \<^verbatim>\<open>tools/list\<close> request.
\<close>

theorem remote_notification_relayed_witness:
  "tools_convertible (JObj [(''method'', JStr ''log''), (''params'', JObj [(''level'', JStr ''info'')])])
   \<and> stdout_of (fst (on_line example_rt (json_reply body_log) False req_list))
     = [JObj [(''jsonrpc'', JStr ''2.0''), (''method'', JStr ''log''),
              (''params'', JObj [(''level'', JStr ''info'')])],
        JObj [(''jsonrpc'', JStr ''2.0''), (''id'', JNum (Fin 7)),
              (''result'', JObj [(''ok'', JBool True)])]]"
proof -
  have fw: "forwardToRemote example_rt
              (json_reply body_log
                 (wire (JObj [(''jsonrpc'', JStr ''2.0''), (''id'', JNum (Fin 7)),
                              (''method'', JStr ''tools/list'')])))
              (or_else (get (JObj [(''jsonrpc'', JStr ''2.0''), (''id'', JNum (Fin 7)),
                                   (''method'', JStr ''tools/list'')]) ''id'') JNull)
            = JObj [(''method'', JStr ''log''), (''params'', JObj [(''level'', JStr ''info'')])]"
    by (rule forward_json[OF parse_body_log])
  have conv: "tools_convertible (JObj [(''method'', JStr ''log''), (''params'', JObj [(''level'', JStr ''info'')])])"
    by (simp add: tools_convertible_def)
  show ?thesis
    using remote_notification_relayed[where rt = example_rt and net = "json_reply body_log"
            and flag = False and line = req_list and m = "''tools/list''",
            OF conjunct2[OF req_list_nonblank] parse_req_list _ _ _ fw _ _ conv]
    by (simp add: conv or_else_def)
qed

text \<open>
  Claim C2 as stated fails for an \<^verbatim>\<open>initialize\<close> request: the same payload has neither a
  result nor an error, the notification is not relayed, and the one line written is the
  local initialize success.
\<close>

theorem notification_during_initialize:
  "has_key (JObj [(''method'', JStr ''log''), (''params'', JObj [(''level'', JStr ''info'')])]) ''method''
   \<and> \<not> has_key (JObj [(''method'', JStr ''log''), (''params'', JObj [(''level'', JStr ''info'')])]) ''id''
   \<and> on_line example_rt (json_reply body_log) False req_init
     = ([Post (JObj [(''jsonrpc'', JStr ''2.0''), (''id'', JNum (Fin 7)), (''method'', JStr ''initialize'')]),
         Stdout (JObj [(''jsonrpc'', JStr ''2.0''),
                       (''id'', JNum (Fin 7)),
                       (''result'',
                        JObj [(''protocolVersion'', JStr ''2024-11-05''),
                              (''serverInfo'',
                               JObj [(''name'', JStr ''dify-mcp-bridge''),
                                     (''version'', JStr ''1.0.0'')]),
                              (''capabilities'', JObj []),
                              (''tools'', JArr [])])])],
        True)"
  by (simp add: on_line_def handleMessage_def req_init_nonblank parse_req_init get_prop_def
        or_else_def truthy_opt_def handle_initialize_def forward_json[OF parse_body_log]
        localInitializeSuccess_def sendResponse_def Let_def)

section \<open>Errors from the remote\<close>

text \<open>
  What \<^verbatim>\<open>normalizeRemoteError\<close> returns, and what the reconciler makes of a payload with an
  error: for an error that is a mapping (or an array, which has none of the fields), the
  code is what \<^verbatim>\<open>Number\<close> makes of the \<open>code\<close> field, else of the \<open>status\<close> field, else
  -32000; the message is the string of the first of \<open>message\<close>, \<open>error\<close>, \<open>reason\<close>
  that is not \<^verbatim>\<open>null\<close>, else the generic string; \<open>data\<close> is carried through. For a
  string, a number or a boolean the code is -32000 and the message its string.
\<close>

lemma normalized_error:
  assumes "normalizeRemoteError rt err = Inr e"
  shows "\<exists>c m.
           e = JObj ([(''code'', JNum c), (''message'', JStr m)]
                     @ (if truthy err \<and> typeof_object err
                        then (case get err ''data'' of None \<Rightarrow> [] | Some d \<Rightarrow> [(''data'', d)])
                        else []))
           \<and> (if truthy err \<and> typeof_object err
              then js_Number rt (spec_code_source err) = Inr c
                   \<and> js_String rt (spec_message_source err) = Inr m
              else c = Fin (- 32000)
                   \<and> js_String rt (or_else (Some err) (JStr ''Remote error'')) = Inr m)"
proof (cases "truthy err \<and> typeof_object err")
  case False
  then show ?thesis
    using assms by (auto simp: normalizeRemoteError_def split: sum.splits)
next
  case True
  then obtain c m where c: "js_Number rt (spec_code_source err) = Inr c"
    and m: "js_String rt (spec_message_source err) = Inr m"
    and e: "e = JObj (case get err ''data'' of
                        None \<Rightarrow> [(''code'', JNum c), (''message'', JStr m)]
                      | Some d \<Rightarrow> AList.update ''data'' d [(''code'', JNum c), (''message'', JStr m)])"
    using assms
    by (auto simp: normalizeRemoteError_def spec_code_source_def spec_message_source_def Let_def
             split: sum.splits)
  have e': "e = JObj ([(''code'', JNum c), (''message'', JStr m)]
                      @ (case get err ''data'' of None \<Rightarrow> [] | Some d \<Rightarrow> [(''data'', d)]))"
    using e by (simp split: option.splits)
  show ?thesis
    using True c m e' by simp
qed

lemma error_reconciled:
  assumes "''id'' \<in> set (map fst kvs) \<or> ''method'' \<notin> set (map fst kvs)"
    and "map_of kvs ''error'' = Some err" and "err \<noteq> JNull"
    and "normalizeRemoteError rt err = Inr e"
  shows "coerceToValidResponseForClient rt (JObj kvs) rid
         = ([], Inr (JObj [(''jsonrpc'', JStr ''2.0''),
                           (''id'', or_else (map_of kvs ''id'') rid),
                           (''error'', e)]))"
proof -
  have e: "has_key (JObj kvs) ''error''"
    using assms(2) by (simp add: has_key_get del: has_key.simps)
  have n: "has_key (JObj kvs) ''id'' \<or> \<not> has_key (JObj kvs) ''method''"
    using assms(1) by simp
  show ?thesis
    using e n assms(2-4)
    by (auto simp: coerceToValidResponseForClient_def or_else_self simp del: has_key.simps)
qed

text \<open>
  The error of the specification: \<^verbatim>\<open>{id: 7, error: {message: "boom"}}\<close> yields code
  -32000 and message \<^verbatim>\<open>boom\<close>, addressed to 7.
\<close>

lemma boom_error_reconciled:
  "coerceToValidResponseForClient example_rt
        (JObj [(''id'', JNum (Fin 7)), (''error'', JObj [(''message'', JStr ''boom'')])]) (JNum (Fin 3))
     = ([], Inr (JObj [(''jsonrpc'', JStr ''2.0''), (''id'', JNum (Fin 7)),
                       (''error'', JObj [(''code'', JNum (Fin (- 32000))), (''message'', JStr ''boom'')])]))"
  by (simp add: coerceToValidResponseForClient_def normalizeRemoteError_def or_else_def qq_def)

lemma number_of_x: "StringToNumber example_rt ''x'' = NaN"
  by (simp add: example_rt_def)

text \<open>
  Claim C3 says that the code of every error surfaced is an integer. On the payload the
  specification itself gives, \<^verbatim>\<open>{id: 7, status: "x", message: "down"}\<close>, the code is
  \<^verbatim>\<open>Number("x")\<close>, which is \<open>NaN\<close>, and the line written carries the code \<^verbatim>\<open>null\<close>: not
  the valid JSON-RPC object that the comment above \<^verbatim>\<open>sendResponse\<close> promises.
\<close>

theorem status_error_code_null:
  "normalizeRemoteError example_rt
       (JObj [(''id'', JNum (Fin 7)), (''status'', JStr ''x''), (''message'', JStr ''down'')])
     = Inr (JObj [(''code'', JNum NaN), (''message'', JStr ''down'')])
   \<and> \<not> is_integer NaN
   \<and> on_line example_rt (json_reply body_down) False req_list
     = ([Post (JObj [(''jsonrpc'', JStr ''2.0''), (''id'', JNum (Fin 7)), (''method'', JStr ''tools/list'')]),
         Stdout (JObj [(''jsonrpc'', JStr ''2.0''), (''id'', JNum (Fin 7)),
                       (''error'', JObj [(''code'', JNull), (''message'', JStr ''down'')])])],
        False)"
  by (simp add: on_line_def handleMessage_def req_list_nonblank parse_req_list get_prop_def
        or_else_def qq_def truthy_opt_def handle_other_def forward_json[OF parse_body_down]
        sanitize_remote_def respond_def coerceToValidResponseForClient_def
        normalizeRemoteError_def number_of_x sendResponse_def Let_def)

text \<open>
  The one line written for it.
\<close>

theorem status_error_code_null_witness:
  "stdout_of (fst (on_line example_rt (json_reply body_down) False req_list))
     = [JObj [(''jsonrpc'', JStr ''2.0''), (''id'', JNum (Fin 7)),
              (''error'', JObj [(''code'', JNull), (''message'', JStr ''down'')])]]"
  using status_error_code_null by simp

text \<open>
  A remote code that is a number is passed on as it is, an integer or not.
\<close>

lemma fractional_error_code:
  "coerceToValidResponseForClient example_rt
        (JObj [(''id'', JNum (Fin 7)),
               (''error'', JObj [(''code'', JNum (Fin (3 / 2))), (''message'', JStr ''boom'')])])
        (JNum (Fin 7))
     = ([], Inr (JObj [(''jsonrpc'', JStr ''2.0''), (''id'', JNum (Fin 7)),
                       (''error'', JObj [(''code'', JNum (Fin (3 / 2))), (''message'', JStr ''boom'')])]))
   \<and> \<not> is_integer (Fin (3 / 2))"
proof -
  have "\<not> is_integer (Fin (3 / 2))" by code_simp
  then show ?thesis
    by (simp add: coerceToValidResponseForClient_def normalizeRemoteError_def or_else_def qq_def)
qed

section \<open>The initialize handshake\<close>

lemma error_message_of_eq:
  "error_message_of err
     = (if truthy_opt (get err ''message'') then value_of (get err ''message'') else JStr ''unknown'')"
  by (simp add: error_message_of_def truthy_opt_def split: option.splits)

text \<open>
  Claim C4, amended. For an \<^verbatim>\<open>initialize\<close> request whose remote payload has no truthy
  result and a truthy error, the message of which converts to a string, the bridge posts
  the request, logs, writes the local success response (fixed protocol version, fixed
  server identity, no capabilities, no tools) addressed to the request's identifier, then
  exactly one warning notification carrying the error's message (\<^verbatim>\<open>unknown\<close> when it has
  none), and leaves the flag \<open>initialized\<close> set.
\<close>

theorem initialize_fallback:
  assumes "trim line \<noteq> []" and "JSON_parse rt line = Some msg"
    and "get msg ''method'' = Some (JStr ''initialize'')"
    and "forwardToRemote rt (net (wire msg)) (or_else (get msg ''id'') JNull) = remote"
    and "\<not> truthy_opt (get remote ''result'')"
    and "get remote ''error'' = Some err" and "truthy err"
    and "convertible (error_message_of err)"
  shows "\<exists>m. js_String rt (error_message_of err) = Inr m
           \<and> on_line rt net flag line
             = ([Post (wire msg),
                 Stderr ''[dify-bridge] Remote initialize failed, returning local minimal initialize. Remote error:'',
                 Stdout (JObj [(''jsonrpc'', JStr ''2.0''),
                               (''id'', wire (or_else (get msg ''id'') JNull)),
                               (''result'',
                                JObj [(''protocolVersion'', JStr ''2024-11-05''),
                                      (''serverInfo'',
                                       JObj [(''name'', JStr ''dify-mcp-bridge''),
                                             (''version'', JStr ''1.0.0'')]),
                                      (''capabilities'', JObj []),
                                      (''tools'', JArr [])])]),
                 Stdout (JObj [(''jsonrpc'', JStr ''2.0''),
                               (''method'', JStr ''notifications/message''),
                               (''params'',
                                JObj [(''level'', JStr ''warning''),
                                      (''message'',
                                       JStr (''dify-bridge: remote initialize failed ('' @ m @ '')''))])])],
                True)"
proof -
  obtain m where m: "js_String rt (error_message_of err) = Inr m"
    using assms(8) js_String_total(1) by blast
  have line: "line \<noteq> []" using assms(1) trim_Nil by auto
  have msg: "msg \<noteq> JNull" using assms(3) by auto
  have remote: "truthy remote" using assms(6) by (cases remote) auto
  have hm: "handleMessage rt net flag line
              = handle_initialize rt net msg (or_else (get msg ''id'') JNull)"
    using assms(1,2,3) line msg
    by (simp add: handleMessage_def get_prop_def Let_def truthy_opt_def)
  have hi: "handle_initialize rt net msg (or_else (get msg ''id'') JNull)
      = ([Post (wire msg),
          Stderr ''[dify-bridge] Remote initialize failed, returning local minimal initialize. Remote error:'',
          sendResponse (localInitializeSuccess (or_else (get msg ''id'') JNull)),
          sendNotification ''notifications/message''
            (Some (JObj [(''level'', JStr ''warning''),
                         (''message'', JStr (''dify-bridge: remote initialize failed ('' @ m @ '')''))]))],
         True, Inr ())"
    using assms(4,5,6,7) remote m
    by (simp add: handle_initialize_def Let_def truthy_opt_def error_message_of_eq)
  have "on_line rt net flag line
      = ([Post (wire msg),
          Stderr ''[dify-bridge] Remote initialize failed, returning local minimal initialize. Remote error:'',
          sendResponse (localInitializeSuccess (or_else (get msg ''id'') JNull)),
          sendNotification ''notifications/message''
            (Some (JObj [(''level'', JStr ''warning''),
                         (''message'', JStr (''dify-bridge: remote initialize failed ('' @ m @ '')''))]))],
         True)"
    by (simp add: on_line_def hm hi)
  then show ?thesis
    using m
    by (simp add: localInitializeSuccess_def sendResponse_result sendNotification_def or_else_def)
qed

text \<open>
  The remote answers \<^verbatim>\<open>initialize\<close> with \<^verbatim>\<open>{id: 7, error: {message: "boom"}}\<close>.
\<close>

theorem initialize_fallback_witness:
  "on_line example_rt (json_reply body_boom) False req_init
     = ([Post (JObj [(''jsonrpc'', JStr ''2.0''), (''id'', JNum (Fin 7)), (''method'', JStr ''initialize'')]),
         Stderr ''[dify-bridge] Remote initialize failed, returning local minimal initialize. Remote error:'',
         Stdout (JObj [(''jsonrpc'', JStr ''2.0''),
                       (''id'', JNum (Fin 7)),
                       (''result'',
                        JObj [(''protocolVersion'', JStr ''2024-11-05''),
                              (''serverInfo'',
                               JObj [(''name'', JStr ''dify-mcp-bridge''),
                                     (''version'', JStr ''1.0.0'')]),
                              (''capabilities'', JObj []),
                              (''tools'', JArr [])])]),
         Stdout (JObj [(''jsonrpc'', JStr ''2.0''),
                       (''method'', JStr ''notifications/message''),
                       (''params'',
                        JObj [(''level'', JStr ''warning''),
                              (''message'', JStr ''dify-bridge: remote initialize failed (boom)'')])])],
        True)"
proof -
  have fw: "forwardToRemote example_rt
              (json_reply body_boom
                 (wire (JObj [(''jsonrpc'', JStr ''2.0''), (''id'', JNum (Fin 7)),
                              (''method'', JStr ''initialize'')])))
              (or_else (get (JObj [(''jsonrpc'', JStr ''2.0''), (''id'', JNum (Fin 7)),
                                   (''method'', JStr ''initialize'')]) ''id'') JNull)
            = JObj [(''id'', JNum (Fin 7)), (''error'', JObj [(''message'', JStr ''boom'')])]"
    by (rule forward_json[OF parse_body_boom])
  show ?thesis
    using initialize_fallback[where rt = example_rt and net = "json_reply body_boom" and flag = False
            and line = req_init and err = "JObj [(''message'', JStr ''boom'')]",
            OF conjunct2[OF req_init_nonblank] parse_req_init _ fw]
    by (simp add: truthy_opt_def error_message_of_def or_else_def)
qed

text \<open>
  Claim C4 as stated fails when the remote payload has an error and a result as well: the
  branch of the result is taken first, and the error is passed on as an error response.
\<close>

theorem initialize_error_with_result:
  "truthy_opt (get (JObj [(''result'', JObj [(''x'', JNum (Fin 1))]),
                          (''error'', JObj [(''message'', JStr ''boom'')])]) ''error'')
   \<and> on_line example_rt (json_reply body_both) False req_init
     = ([Post (JObj [(''jsonrpc'', JStr ''2.0''), (''id'', JNum (Fin 7)), (''method'', JStr ''initialize'')]),
         Stdout (JObj [(''jsonrpc'', JStr ''2.0''), (''id'', JNum (Fin 7)),
                       (''error'', JObj [(''code'', JNum (Fin (- 32000))), (''message'', JStr ''boom'')])])],
        True)"
  by (simp add: on_line_def handleMessage_def req_init_nonblank parse_req_init get_prop_def
        or_else_def qq_def truthy_opt_def handle_initialize_def forward_json[OF parse_body_both]
        repairToolsInInitializeResult_def respond_def coerceToValidResponseForClient_def
        normalizeRemoteError_def sendResponse_def Let_def)

section \<open>The body decoder: double decoding and fallback\<close>

lemma parse_twice_dead: "JSON_parse rt d = None \<Longrightarrow> parse_twice rt d = None"
  by (simp add: parse_twice_def)

lemma first_decode_returned:
  assumes "scan_chunks text = Some d" and "JSON_parse rt d = Some v"
  shows "parseSseLike rt text = v"
  using assms by (simp add: parseSseLike_def)

lemma sse_undecodable:
  assumes "scan_chunks text = Some d" and "JSON_parse rt d = None"
  shows "parseSseLike rt text = JNull"
  using assms by (simp add: parseSseLike_def parse_twice_dead)

lemma scan_quoted: "scan_chunks sse_quoted = Some quoted_text"
  by (simp add: sse_quoted_def scan_chunks_def scan_line_def startsWith_def trim_def js_space_def quoted_text_def)

text \<open>
  Claim C5 says that a doubly encoded payload decodes to the inner object. The first
  \<^verbatim>\<open>try\<close> of \<^verbatim>\<open>parseSseLike\<close> returns whatever the first decode gives, a string
  included; the second \<^verbatim>\<open>try\<close> runs only after the first decode has thrown, and its own
  inner decode then throws again (\<open>parse_twice_dead\<close>). On the body whose data payload is
  the string literal of \<^verbatim>\<open>{"a":1}\<close> the result is that string, not the object it encodes.
\<close>

theorem doubly_encoded_stays_string:
  "parseSseLike example_rt sse_quoted = JStr inner_text
   \<and> JSON_parse example_rt quoted_text = Some (JStr inner_text)
   \<and> JSON_parse example_rt inner_text = Some (JObj [(''a'', JNum (Fin 1))])"
proof -
  have q: "JSON_parse example_rt quoted_text = Some (JStr inner_text)"
    by (simp add: example_rt_def example_parse_def example_texts)
  have i: "JSON_parse example_rt inner_text = Some (JObj [(''a'', JNum (Fin 1))])"
    by (simp add: example_rt_def example_parse_def example_texts)
  show ?thesis
    using first_decode_returned[OF scan_quoted q] q i by simp
qed

text \<open>
  Claim C6, amended. The fallback of the body decoder goes one way. With a content type
  other than the streaming event format, a body that is JSON is decoded directly, and one
  that is not goes to the streaming-event decoder; the parse error (code -32700, the raw
  text as data) is produced when that gives nothing truthy. With the streaming event
  content type the result is that of the streaming-event decoder alone: when it gives
  nothing truthy the parse error is produced at once, whether or not the body is JSON.
\<close>

theorem decode_fallback_one_way:
  "(\<not> str_includes ct ''text/event-stream'' \<and> JSON_parse rt text = Some v
      \<longrightarrow> decode_body rt ct text rid = v)
   \<and> (\<not> str_includes ct ''text/event-stream'' \<and> JSON_parse rt text = None
      \<longrightarrow> decode_body rt ct text rid =
            (if truthy (parseSseLike rt text) then parseSseLike rt text
             else JObj [(''jsonrpc'', JStr ''2.0''), (''id'', rid),
                        (''error'', JObj [(''code'', JNum (Fin (- 32700))),
                                         (''message'', JStr ''Parse error (invalid JSON)''),
                                         (''data'', JStr text)])]))
   \<and> (str_includes ct ''text/event-stream''
      \<longrightarrow> decode_body rt ct text rid =
            (if truthy (parseSseLike rt text) then parseSseLike rt text
             else JObj [(''jsonrpc'', JStr ''2.0''), (''id'', rid),
                        (''error'', JObj [(''code'', JNum (Fin (- 32700))),
                                         (''message'', JStr ''Parse error (no SSE data)''),
                                         (''data'', JStr text)])]))"
  by (simp add: decode_body_def makeError_def or_else_self Let_def)

lemma sse_body_ok: "parseSseLike example_rt body_ok = JNull"
  by (simp add: parseSseLike_def scan_chunks_def scan_line_def startsWith_def trim_def
        js_space_def body_ok_def)

lemma scan_sse_ok: "scan_chunks sse_ok = Some body_ok"
  by (simp add: sse_ok_def scan_chunks_def scan_line_def startsWith_def trim_def js_space_def body_ok_def)

text \<open>
  Both directions on the examples: an event-stream body declared as JSON is decoded by the
  fallback, a JSON body declared as an event stream is not.
\<close>

theorem decode_fallback_one_way_witness:
  "\<not> str_includes (toLowerCase ''application/json'') ''text/event-stream''
   \<and> JSON_parse example_rt sse_ok = None
   \<and> decode_body example_rt (toLowerCase ''application/json'') sse_ok (JNum (Fin 7))
       = JObj [(''id'', JNum (Fin 7)), (''result'', JObj [(''x'', JNum (Fin 1))])]
   \<and> str_includes (toLowerCase ''text/event-stream'') ''text/event-stream''
   \<and> decode_body example_rt (toLowerCase ''text/event-stream'') body_ok (JNum (Fin 7))
       = JObj [(''jsonrpc'', JStr ''2.0''), (''id'', JNum (Fin 7)),
               (''error'', JObj [(''code'', JNum (Fin (- 32700))),
                                (''message'', JStr ''Parse error (no SSE data)''),
                                (''data'', JStr body_ok)])]"
proof -
  have sse: "parseSseLike example_rt sse_ok
               = JObj [(''id'', JNum (Fin 7)), (''result'', JObj [(''x'', JNum (Fin 1))])]"
    using first_decode_returned[OF scan_sse_ok parse_body_ok] .
  show ?thesis
    using decode_fallback_one_way[of "toLowerCase ''application/json''" example_rt
            sse_ok _ "JNum (Fin 7)"]
          decode_fallback_one_way[of "toLowerCase ''text/event-stream''" example_rt
            body_ok _ "JNum (Fin 7)"]
    by (simp add: ct_json ct_sse parse_sse_text sse sse_body_ok)
qed

text \<open>
  Claim C6 as stated fails: a body that is valid JSON, declared as an event stream, is
  answered with the parse error.
\<close>

theorem sse_type_no_json_fallback:
  "JSON_parse example_rt body_ok
     = Some (JObj [(''id'', JNum (Fin 7)), (''result'', JObj [(''x'', JNum (Fin 1))])])
   \<and> forwardToRemote example_rt (Response 200 (Some ''text/event-stream'') (Inr body_ok)) (JNum (Fin 7))
     = JObj [(''jsonrpc'', JStr ''2.0''), (''id'', JNum (Fin 7)),
             (''error'', JObj [(''code'', JNum (Fin (- 32700))),
                              (''message'', JStr ''Parse error (no SSE data)''),
                              (''data'', JStr body_ok)])]"
  by (simp add: parse_body_ok forwardToRemote_def decode_body_def ct_sse sse_body_ok
        makeError_def or_else_self)

section \<open>Messages without a method\<close>

text \<open>
  Every decoded message other than \<^verbatim>\<open>null\<close> that has no non-empty string as its method
  gets one error response with the code -32600, addressed to its identifier or to
  \<^verbatim>\<open>null\<close>, and nothing is posted to the remote.
\<close>

lemma invalid_request_reply:
  assumes "trim line \<noteq> []" and "JSON_parse rt line = Some msg" and "msg \<noteq> JNull"
    and "\<not> is_string (get msg ''method'') \<or> \<not> truthy_opt (get msg ''method'')"
  shows "on_line rt net flag line
         = ([Stdout (JObj [(''jsonrpc'', JStr ''2.0''),
                           (''id'', wire (or_else (get msg ''id'') JNull)),
                           (''error'', JObj [(''code'', JNum (Fin (- 32600))),
                                            (''message'', JStr ''Invalid Request: missing method'')])])],
            flag)"
proof -
  have "line \<noteq> []" using assms(1) trim_Nil by auto
  then show ?thesis
    using assms
    by (simp add: on_line_def handleMessage_def get_prop_def Let_def makeError_def or_else_self
          sendResponse_error)
qed

lemma invalid_request_example:
  "on_line example_rt (json_reply body_ok) False req_no_method
     = ([Stdout (JObj [(''jsonrpc'', JStr ''2.0''), (''id'', JNum (Fin 3)),
                       (''error'', JObj [(''code'', JNum (Fin (- 32600))),
                                        (''message'', JStr ''Invalid Request: missing method'')])])],
        False)"
proof -
  have p: "JSON_parse example_rt req_no_method
             = Some (JObj [(''jsonrpc'', JStr ''2.0''), (''id'', JNum (Fin 3))])"
    by (simp add: example_rt_def example_parse_def example_texts)
  have t: "trim req_no_method \<noteq> []"
    by (simp add: trim_def js_space_def req_no_method_def)
  show ?thesis
    using invalid_request_reply[OF t p, of "json_reply body_ok" False]
    by (simp add: or_else_def)
qed

text \<open>
  An identifier that is not a finite number is written as \<^verbatim>\<open>null\<close>.
\<close>

lemma non_finite_id_written_null:
  "JSON_parse example_rt req_big_id
     = Some (JObj [(''jsonrpc'', JStr ''2.0''), (''id'', JNum (Infinite False))])
   \<and> on_line example_rt (json_reply body_ok) False req_big_id
     = ([Stdout (JObj [(''jsonrpc'', JStr ''2.0''), (''id'', JNull),
                       (''error'', JObj [(''code'', JNum (Fin (- 32600))),
                                        (''message'', JStr ''Invalid Request: missing method'')])])],
        False)"
proof -
  have p: "JSON_parse example_rt req_big_id
             = Some (JObj [(''jsonrpc'', JStr ''2.0''), (''id'', JNum (Infinite False))])"
    by (simp add: example_rt_def example_parse_def example_texts)
  have t: "trim req_big_id \<noteq> []"
    by (simp add: trim_def js_space_def req_big_id_def)
  show ?thesis
    using invalid_request_reply[OF t p, of "json_reply body_ok" False] p
    by (simp add: or_else_def)
qed

text \<open>
  Claim C7 says that every decoded line without a non-empty string \<open>method\<close> gets exactly
  one invalid-request error response. The line \<^verbatim>\<open>null\<close> decodes and has no method, and
  \<^verbatim>\<open>handleMessage\<close> rejects on it without writing a response: the read of \<^verbatim>\<open>msg.id\<close>
  raises before the method is tested.
\<close>

theorem method_less_null_line:
  "JSON_parse example_rt ''null'' = Some JNull
   \<and> get JNull ''method'' = None
   \<and> handleMessage example_rt (json_reply body_ok) True ''null'' = ([], True, Inl TypeError)"
  by (simp add: parse_null trim_null handleMessage_def get_prop_def)

theorem method_less_null_line_witness:
  "stdout_of (fst (handleMessage example_rt (json_reply body_ok) True ''null'')) = []
   \<and> posts_of (fst (handleMessage example_rt (json_reply body_ok) True ''null'')) = []"
  using method_less_null_line by simp

text \<open>
  Claim C10. A line that decodes to \<^verbatim>\<open>null\<close> produces no output line: reading
  \<^verbatim>\<open>msg.id\<close> raises, \<^verbatim>\<open>handleMessage\<close> rejects before it writes or posts anything, and
  the listener of the line logs the rejection on standard error and returns, the flag
  unchanged.
\<close>

theorem null_line_absorbed:
  assumes "trim line \<noteq> []" and "JSON_parse rt line = Some JNull"
  shows "handleMessage rt net flag line = ([], flag, Inl TypeError)
         \<and> on_line rt net flag line = ([Stderr ''[dify-bridge] handleMessage error''], flag)
         \<and> stdout_of (fst (on_line rt net flag line)) = []
         \<and> posts_of (fst (on_line rt net flag line)) = []"
proof -
  have "line \<noteq> []" using assms(1) trim_Nil by auto
  then have "handleMessage rt net flag line = ([], flag, Inl TypeError)"
    using assms by (simp add: handleMessage_def get_prop_def)
  then show ?thesis by (simp add: on_line_def)
qed

text \<open>
  The line \<^verbatim>\<open>null\<close> itself.
\<close>

theorem null_line_absorbed_witness:
  "trim ''null'' \<noteq> [] \<and> JSON_parse example_rt ''null'' = Some JNull
   \<and> on_line example_rt (json_reply body_ok) False ''null''
       = ([Stderr ''[dify-bridge] handleMessage error''], False)"
  using null_line_absorbed[of "''null''" example_rt "json_reply body_ok" False]
  by (simp add: parse_null trim_null)

end
